theory Spec2Isabelle
  imports Complex_Main "HOL-Library.AList"
begin

section \<open>JavaScript values used by the gateway\<close>

text \<open>
  A plain JavaScript object (\<^verbatim>\<open>Record<string, V>\<close>) is an association list holding its own
  properties in the order \<^verbatim>\<open>Object.keys\<close> enumerates them. Reading \<^verbatim>\<open>obj[k]\<close> is
  \<open>obj_get\<close>, writing \<^verbatim>\<open>obj[k] = v\<close> is \<open>obj_set\<close>: an existing property keeps its
  place, a new one goes to the end (none of the keys written by the program is an array
  index). \<open>obj_get\<close> sees own properties only. Every plain object also inherits the
  properties of \<^verbatim>\<open>Object.prototype\<close> (such as \<^verbatim>\<open>toString\<close>): the reads of the pricing
  config and of the top level of the symbol directory are own reads, which is what the
  program does for every key that is not the name of an inherited property; the reads of
  the ticker tables with a ticker taken from a request take the inherited properties
  into account (section on the pricing endpoint).

  A string is the UTF-8 encoding of the program's string. The program searches strings
  for the ASCII characters \<^verbatim>\<open>/\<close>, \<^verbatim>\<open>.\<close>, \<^verbatim>\<open>,\<close>, \<^verbatim>\<open>-\<close>, digits and capital
  letters, which never occur inside a multi-byte character, and for white space.

  A JavaScript \<^verbatim>\<open>number\<close> is a value of the type parameter \<open>'n\<close>. The program multiplies,
  divides and compares numbers and hands them to \<^verbatim>\<open>Math.round\<close> and \<^verbatim>\<open>toFixed\<close>; the
  two library functions and the conversion of a literal are the fields of \<open>js_number\<close>.
  The instance the program runs on, IEEE 754 double precision, is \<open>double_number\<close> below.
\<close>

type_synonym 'v obj = "(string \<times> 'v) list"

definition obj_get :: "'v obj \<Rightarrow> string \<Rightarrow> 'v option" where
  "obj_get obj k = map_of obj k"

definition obj_keys :: "'v obj \<Rightarrow> string list" where
  "obj_keys obj = map fst obj"

definition obj_set :: "'v obj \<Rightarrow> string \<Rightarrow> 'v \<Rightarrow> 'v obj" where
  "obj_set obj k v = AList.update k v obj"

datatype 'n json =
    JNull
  | JBool bool
  | JNum 'n
  | JStr string
  | JArr "'n json list"
  | JObj "(string \<times> 'n json) list"

record 'n js_number =
  mathRound :: "'n \<Rightarrow> 'n"
  toFixed :: "'n \<Rightarrow> nat \<Rightarrow> string"
  lit :: "int \<Rightarrow> 'n"

section \<open>Pricing config store (pricing.ts)\<close>

record 'n Duration =
  path :: string
  label :: string
  basePriceDollars :: 'n

record 'n AssetTypeDef =
  at_label :: string
  at_multiplier :: 'n

record 'n ChannelDef =
  ch_label :: string
  wsChannel :: string
  ch_multiplier :: 'n

record 'n PricingConfig =
  durations :: "'n Duration list"
  assetTypes :: "'n AssetTypeDef obj"
  channels :: "'n ChannelDef obj"

record RouteConfig =
  routePath :: string
  price :: string
  route_assetType :: string
  route_channel :: string
  route_duration :: string

record 'n Price =
  dollars :: 'n
  formatted :: string

subsection \<open>pricingSchema\<close>

definition parse_duration :: "('n::{zero,ord}) json \<Rightarrow> 'n Duration option" where
  "parse_duration j =
     (case j of
        JObj fs \<Rightarrow>
          (case (map_of fs ''path'', map_of fs ''label'', map_of fs ''basePriceDollars'') of
             (Some (JStr p), Some (JStr l), Some (JNum b)) \<Rightarrow>
               if 0 < b then Some \<lparr>path = p, label = l, basePriceDollars = b\<rparr> else None
           | _ \<Rightarrow> None)
      | _ \<Rightarrow> None)"

definition parse_assetType :: "('n::{zero,ord}) json \<Rightarrow> 'n AssetTypeDef option" where
  "parse_assetType j =
     (case j of
        JObj fs \<Rightarrow>
          (case (map_of fs ''label'', map_of fs ''multiplier'') of
             (Some (JStr l), Some (JNum m)) \<Rightarrow>
               if 0 < m then Some \<lparr>at_label = l, at_multiplier = m\<rparr> else None
           | _ \<Rightarrow> None)
      | _ \<Rightarrow> None)"

definition parse_channel :: "('n::{zero,ord}) json \<Rightarrow> 'n ChannelDef option" where
  "parse_channel j =
     (case j of
        JObj fs \<Rightarrow>
          (case (map_of fs ''label'', map_of fs ''wsChannel'', map_of fs ''multiplier'') of
             (Some (JStr l), Some (JStr w), Some (JNum m)) \<Rightarrow>
               if 0 < m then Some \<lparr>ch_label = l, wsChannel = w, ch_multiplier = m\<rparr> else None
           | _ \<Rightarrow> None)
      | _ \<Rightarrow> None)"

text \<open>\<^verbatim>\<open>z.array(elem)\<close> and \<^verbatim>\<open>z.record(z.string(), elem)\<close>: every element must parse.\<close>

fun parse_array :: "('a \<Rightarrow> 'b option) \<Rightarrow> 'a list \<Rightarrow> 'b list option" where
  "parse_array f [] = Some []"
| "parse_array f (x # xs) =
     (case f x of
        None \<Rightarrow> None
      | Some y \<Rightarrow> (case parse_array f xs of None \<Rightarrow> None | Some ys \<Rightarrow> Some (y # ys)))"

fun parse_record :: "('a \<Rightarrow> 'b option) \<Rightarrow> (string \<times> 'a) list \<Rightarrow> 'b obj option" where
  "parse_record f [] = Some []"
| "parse_record f ((k, x) # xs) =
     (case f x of
        None \<Rightarrow> None
      | Some y \<Rightarrow> (case parse_record f xs of None \<Rightarrow> None | Some ys \<Rightarrow> Some ((k, y) # ys)))"

definition pricingSchema_parse :: "('n::{zero,ord}) json \<Rightarrow> 'n PricingConfig option" where
  "pricingSchema_parse j =
     (case j of
        JObj fs \<Rightarrow>
          (case (map_of fs ''durations'', map_of fs ''assetTypes'', map_of fs ''channels'') of
             (Some (JArr ds), Some (JObj ats), Some (JObj chs)) \<Rightarrow>
               (case (parse_array parse_duration ds,
                      parse_record parse_assetType ats,
                      parse_record parse_channel chs) of
                  (Some ds', Some ats', Some chs') \<Rightarrow>
                    if 1 \<le> length ds' \<and> 0 < length (obj_keys ats') \<and> 0 < length (obj_keys chs')
                    then Some \<lparr>durations = ds', assetTypes = ats', channels = chs'\<rparr>
                    else None
                | _ \<Rightarrow> None)
           | _ \<Rightarrow> None)
      | _ \<Rightarrow> None)"

subsection \<open>loadConfig, the initial load and the file watcher\<close>

text \<open>
  \<open>loadConfig\<close> reads and parses the file inside \<^verbatim>\<open>try\<close>: its argument is what
  \<^verbatim>\<open>JSON.parse(fs.readFileSync(...))\<close> gave, \<open>None\<close> when either of them threw. Every
  exception ends in the \<^verbatim>\<open>catch\<close>, which returns \<^verbatim>\<open>null\<close>. The fields of a \<open>JObj\<close> are
  the properties of a parsed object, so no key occurs twice among them.
\<close>

definition loadConfig :: "('n::{zero,ord}) json option \<Rightarrow> 'n PricingConfig option" where
  "loadConfig raw = (case raw of None \<Rightarrow> None | Some j \<Rightarrow> pricingSchema_parse j)"

text \<open>
  The module body: \<^verbatim>\<open>current = loadConfig(); if (!current) throw new Error(...)\<close>.
  \<open>Inl\<close> is the thrown error, which ends the process before the server is created (its
  text has a dash outside ASCII, given by its three bytes); \<open>Inr\<close> is the value of the
  module variable \<^verbatim>\<open>current\<close>.
\<close>

definition startup_error :: string where
  "startup_error =
     ''pricing.json is missing or invalid '' @ [CHR 0xE2, CHR 0x80, CHR 0x94] @ '' cannot start server''"

definition initial_load :: "('n::{zero,ord}) json option \<Rightarrow> string + 'n PricingConfig option" where
  "initial_load raw =
     (let current = loadConfig raw
      in if current = None then Inl startup_error else Inr current)"

text \<open>The callback given to \<^verbatim>\<open>fs.watch\<close>, as a function of the module variable.\<close>

definition watch_callback ::
  "string \<Rightarrow> ('n::{zero,ord}) json option \<Rightarrow> 'n PricingConfig option \<Rightarrow> 'n PricingConfig option" where
  "watch_callback eventType raw current =
     (if eventType = ''change''
      then (case loadConfig raw of Some updated \<Rightarrow> Some updated | None \<Rightarrow> current)
      else current)"

fun watch_events ::
  "(string \<times> ('n::{zero,ord}) json option) list \<Rightarrow> 'n PricingConfig option \<Rightarrow> 'n PricingConfig option" where
  "watch_events [] current = current"
| "watch_events ((eventType, raw) # es) current = watch_events es (watch_callback eventType raw current)"

text \<open>What the schema demands of a config document, said of the parsed snapshot.\<close>

definition valid_snapshot :: "('n::{zero,ord}) PricingConfig \<Rightarrow> bool" where
  "valid_snapshot c \<longleftrightarrow>
     durations c \<noteq> [] \<and> assetTypes c \<noteq> [] \<and> channels c \<noteq> [] \<and>
     list_all (\<lambda>d. 0 < basePriceDollars d) (durations c) \<and>
     list_all (\<lambda>(k, a). 0 < at_multiplier a) (assetTypes c) \<and>
     list_all (\<lambda>(k, ch). 0 < ch_multiplier ch) (channels c)"

subsection \<open>computePrice and getAllRouteConfigs\<close>

definition computePrice ::
  "('n::{times,inverse}) js_number \<Rightarrow> 'n PricingConfig \<Rightarrow> string \<Rightarrow> string \<Rightarrow> string \<Rightarrow> 'n Price option" where
  "computePrice js cfg assetType channel durationPath =
     (let a = obj_get (assetTypes cfg) assetType;
          c = obj_get (channels cfg) channel;
          d = find (\<lambda>d. path d = durationPath) (durations cfg)
      in case (a, c, d) of
           (Some atd, Some ch, Some dur) \<Rightarrow>
             (let dollars = basePriceDollars dur * at_multiplier atd * ch_multiplier ch;
                  rounded = mathRound js (dollars * lit js 100) / lit js 100
              in Some \<lparr>dollars = rounded, formatted = ''$'' @ toFixed js rounded 2\<rparr>)
         | _ \<Rightarrow> None)"

definition route_for :: "string \<Rightarrow> string \<Rightarrow> 'n Duration \<Rightarrow> 'n Price \<Rightarrow> RouteConfig" where
  "route_for assetType channel dur p =
     \<lparr>routePath = ''/v1/purchase/'' @ assetType @ ''/'' @ channel @ ''/'' @ path dur,
      price = formatted p,
      route_assetType = assetType,
      route_channel = channel,
      route_duration = path dur\<rparr>"

definition getAllRouteConfigs :: "('n::{times,inverse}) js_number \<Rightarrow> 'n PricingConfig \<Rightarrow> RouteConfig list" where
  "getAllRouteConfigs js cfg =
     concat (map (\<lambda>assetType.
       concat (map (\<lambda>channel.
         concat (map (\<lambda>dur.
           (case computePrice js cfg assetType channel (path dur) of
              Some p \<Rightarrow> [route_for assetType channel dur p]
            | None \<Rightarrow> []))
           (durations cfg)))
         (obj_keys (channels cfg))))
       (obj_keys (assetTypes cfg)))"

subsection \<open>IEEE 754 double precision\<close>

text \<open>
  A \<^verbatim>\<open>number\<close> of the program is a double: a finite value, which is a rational number
  (\<open>Fin 0\<close> is the zero with the positive sign), the zero with the negative sign, one of
  the two infinities, or NaN. The arithmetic only produces \<open>Fin x\<close> for an \<open>x\<close> that a
  double represents.

  \<open>fl\<close> rounds a rational number to the nearest double, to the one with the even
  significand on a tie: the 53 significant bits of a normal number, the fixed spacing
  \<open>2 ^ -1074\<close> below \<open>2 ^ -1022\<close>, an infinity when the rounded magnitude reaches
  \<open>2 ^ 1024\<close>, and a zero of the sign of the number when it rounds to nothing. It is also
  what reading a decimal literal does. \<open>bitlen n\<close> is the number of bits of \<open>n\<close> and
  \<open>floor_log2 x\<close> the exponent \<open>e\<close> with \<open>2 ^ e \<le> x < 2 ^ (e + 1)\<close>.
\<close>

datatype double = Fin rat | NegZero | PInf | NInf | NaN

function bitlen :: "int \<Rightarrow> int" where
  "bitlen n = (if n \<le> 0 then 0 else 1 + bitlen (n div 2))"
  by auto
termination
  by (relation "measure nat") auto

declare bitlen.simps [simp del]

definition floor_log2 :: "rat \<Rightarrow> int" where
  "floor_log2 x =
     (let (p, q) = quotient_of x;
          e = bitlen p - bitlen q
      in if 2 powi e \<le> x then e else e - 1)"

definition round_even :: "rat \<Rightarrow> int" where
  "round_even y =
     (let f = \<lfloor>y\<rfloor>; d = y - of_int f
      in if d < 1 / 2 then f else if 1 / 2 < d then f + 1 else if even f then f else f + 1)"

definition fl :: "rat \<Rightarrow> double" where
  "fl x =
     (if x = 0 then Fin 0
      else
        (let a = \<bar>x\<bar>;
             q = 2 powi (max (floor_log2 a) (- 1022) - 52);
             r = of_int (round_even (a / q)) * q
         in if 2 powi 1024 \<le> r then (if 0 < x then PInf else NInf)
            else if r = 0 then (if 0 < x then Fin 0 else NegZero)
            else Fin (if 0 < x then r else - r)))"

text \<open>
  Multiplication, division and comparison of doubles: the exact result rounded by \<open>fl\<close>,
  and the cases of IEEE 754 for NaN, the infinities and the zeros, whose sign is the
  exclusive or of the signs of the operands. A comparison with NaN is false and the two
  zeros are equal, so the test \<open>0 < x\<close> of the schema holds for the positive finite
  numbers and the positive infinity, as \<^verbatim>\<open>z.number().positive()\<close> does.
\<close>

definition is_zero :: "double \<Rightarrow> bool" where
  "is_zero d \<longleftrightarrow> d = Fin 0 \<or> d = NegZero"

definition is_inf :: "double \<Rightarrow> bool" where
  "is_inf d \<longleftrightarrow> d = PInf \<or> d = NInf"

fun negative :: "double \<Rightarrow> bool" where
  "negative (Fin x) = (x < 0)"
| "negative NegZero = True"
| "negative PInf = False"
| "negative NInf = True"
| "negative NaN = False"

fun value_of :: "double \<Rightarrow> rat" where
  "value_of (Fin x) = x"
| "value_of NegZero = 0"
| "value_of PInf = 0"
| "value_of NInf = 0"
| "value_of NaN = 0"

definition signed_zero :: "bool \<Rightarrow> double" where
  "signed_zero neg = (if neg then NegZero else Fin 0)"

definition signed_inf :: "bool \<Rightarrow> double" where
  "signed_inf neg = (if neg then NInf else PInf)"

definition double_times :: "double \<Rightarrow> double \<Rightarrow> double" where
  "double_times a b =
     (if a = NaN \<or> b = NaN then NaN
      else if is_inf a \<or> is_inf b
      then (if is_zero a \<or> is_zero b then NaN else signed_inf (negative a \<noteq> negative b))
      else if is_zero a \<or> is_zero b then signed_zero (negative a \<noteq> negative b)
      else fl (value_of a * value_of b))"

definition double_divide :: "double \<Rightarrow> double \<Rightarrow> double" where
  "double_divide a b =
     (if a = NaN \<or> b = NaN then NaN
      else if is_inf a
      then (if is_inf b then NaN else signed_inf (negative a \<noteq> negative b))
      else if is_inf b then signed_zero (negative a \<noteq> negative b)
      else if is_zero b
      then (if is_zero a then NaN else signed_inf (negative a \<noteq> negative b))
      else if is_zero a then signed_zero (negative a \<noteq> negative b)
      else fl (value_of a / value_of b))"

definition double_less :: "double \<Rightarrow> double \<Rightarrow> bool" where
  "double_less a b \<longleftrightarrow>
     a \<noteq> NaN \<and> b \<noteq> NaN \<and>
     (if a = PInf \<or> b = NInf then False
      else if a = NInf \<or> b = PInf then True
      else value_of a < value_of b)"

definition double_less_eq :: "double \<Rightarrow> double \<Rightarrow> bool" where
  "double_less_eq a b \<longleftrightarrow>
     a \<noteq> NaN \<and> b \<noteq> NaN \<and>
     (if a = NInf \<or> b = PInf then True
      else if a = PInf \<or> b = NInf then False
      else value_of a \<le> value_of b)"

instantiation double :: "{zero, times, inverse, ord}"
begin

definition zero_double :: double where
  "zero_double = Fin 0"

definition times_double :: "double \<Rightarrow> double \<Rightarrow> double" where
  "times_double = double_times"

definition divide_double :: "double \<Rightarrow> double \<Rightarrow> double" where
  "divide_double = double_divide"

definition inverse_double :: "double \<Rightarrow> double" where
  "inverse_double = double_divide (Fin 1)"

definition less_double :: "double \<Rightarrow> double \<Rightarrow> bool" where
  "less_double = double_less"

definition less_eq_double :: "double \<Rightarrow> double \<Rightarrow> bool" where
  "less_eq_double = double_less_eq"

instance ..

end

text \<open>
  The two library functions, following the ECMAScript specification.
  \<^verbatim>\<open>Math.round(x)\<close> returns \<open>x\<close> when it is not finite or is an integer, and otherwise the
  integer nearest to \<open>x\<close>, the larger one on a tie, which is the negative zero for
  \<open>-1/2 \<le> x < 0\<close>.

  \<^verbatim>\<open>x.toFixed(f)\<close>, for the \<open>0 \<le> f \<le> 100\<close> the library accepts (the program passes 2):
  a value that is not finite prints as \<^verbatim>\<open>NaN\<close>, \<^verbatim>\<open>Infinity\<close> or \<^verbatim>\<open>-Infinity\<close>; a
  negative value prints a minus sign and its magnitude; a magnitude below \<open>10 ^ 21\<close>
  prints the integer \<open>n\<close> nearest to \<open>x * 10 ^ f\<close> (the larger one on a tie) with a
  point before its last \<open>f\<close> digits, padded with zeros to \<open>f + 1\<close> digits
  (\<open>fixed_digits\<close>); a magnitude from \<open>10 ^ 21\<close> on prints as \<^verbatim>\<open>String(x)\<close> does, in
  exponent notation (\<open>exponential\<close>): the shortest decimal \<open>s * 10 ^ (n - k)\<close> with \<open>k\<close>
  digits that \<open>fl\<close> rounds to \<open>x\<close>, the nearest to \<open>x\<close> among those of that length, as
  its first digit, a point and the other digits if there are any, \<^verbatim>\<open>e+\<close> and \<open>n - 1\<close>.
  For a given \<open>k\<close> and \<open>n\<close> the decimals that round to \<open>x\<close> are consecutive, so the nearest
  is one of the two around \<open>x\<close>; \<open>n\<close> is the number of digits of the integer part of
  \<open>x\<close> or one more; 17 digits identify every double, so the search ends.
\<close>

definition digit_char :: "nat \<Rightarrow> char" where
  "digit_char d = ''0123456789'' ! d"

fun digits10 :: "nat \<Rightarrow> string" where
  "digits10 n = (if n < 10 then [digit_char n] else digits10 (n div 10) @ [digit_char (n mod 10)])"

definition mathRound_double :: "double \<Rightarrow> double" where
  "mathRound_double d =
     (case d of
        Fin x \<Rightarrow>
          if of_int \<lfloor>x\<rfloor> = x then Fin x
          else (let n = \<lfloor>x + 1 / 2\<rfloor> in if n = 0 \<and> x < 0 then NegZero else Fin (of_int n))
      | _ \<Rightarrow> d)"

definition fixed_digits :: "rat \<Rightarrow> nat \<Rightarrow> string" where
  "fixed_digits x f =
     (let n = nat \<lfloor>x * 10 ^ f + 1 / 2\<rfloor>;
          m = digits10 n
      in if f \<noteq> 0
         then (let k = length m;
                   m = (if k \<le> f then replicate (f + 1 - k) (CHR ''0'') @ m else m);
                   k = (if k \<le> f then f + 1 else k)
               in take (k - f) m @ ''.'' @ drop (k - f) m)
         else m)"

definition decimal_candidates :: "rat \<Rightarrow> nat \<Rightarrow> (nat \<times> nat) list" where
  "decimal_candidates x k =
     filter (\<lambda>(s, n). 10 ^ (k - 1) \<le> s \<and> s < 10 ^ k \<and> fl (of_nat s * 10 ^ (n - k)) = Fin x)
       (concat (map (\<lambda>n. (let s = nat \<lfloor>x / 10 ^ (n - k)\<rfloor> in [(s, n), (s + 1, n)]))
          [length (digits10 (nat \<lfloor>x\<rfloor>)), length (digits10 (nat \<lfloor>x\<rfloor>)) + 1]))"

definition closer :: "rat \<Rightarrow> nat \<Rightarrow> nat \<times> nat \<Rightarrow> nat \<times> nat \<Rightarrow> nat \<times> nat" where
  "closer x k c1 c2 =
     (let d1 = \<bar>of_nat (fst c1) * 10 ^ (snd c1 - k) - x\<bar>;
          d2 = \<bar>of_nat (fst c2) * 10 ^ (snd c2 - k) - x\<bar>
      in if d2 < d1 \<or> (d2 = d1 \<and> even (fst c2)) then c2 else c1)"

definition shortest_decimal :: "rat \<Rightarrow> nat \<times> nat" where
  "shortest_decimal x =
     (case find (\<lambda>k. decimal_candidates x k \<noteq> []) [1..<18] of
        Some k \<Rightarrow>
          (case decimal_candidates x k of
             c # cs \<Rightarrow> foldl (closer x k) c cs
           | [] \<Rightarrow> (0, 0))
      | None \<Rightarrow>
          (let n = length (digits10 (nat \<lfloor>x\<rfloor>))
           in (nat \<lfloor>x / 10 ^ (n - 17) + 1 / 2\<rfloor>, n)))"

definition exponential :: "rat \<Rightarrow> string" where
  "exponential x =
     (let (s, n) = shortest_decimal x;
          ds = digits10 s
      in (if length ds = 1 then ds else take 1 ds @ ''.'' @ drop 1 ds) @ ''e+'' @ digits10 (n - 1))"

definition toFixed_double :: "double \<Rightarrow> nat \<Rightarrow> string" where
  "toFixed_double d f =
     (case d of
        NaN \<Rightarrow> ''NaN''
      | PInf \<Rightarrow> ''Infinity''
      | NInf \<Rightarrow> ''-Infinity''
      | NegZero \<Rightarrow> fixed_digits 0 f
      | Fin x \<Rightarrow>
          (if x < 0 then ''-'' else []) @
          (if 10 ^ 21 \<le> \<bar>x\<bar> then exponential \<bar>x\<bar> else fixed_digits \<bar>x\<bar> f))"

definition double_number :: "double js_number" where
  "double_number =
     \<lparr>mathRound = mathRound_double, toFixed = toFixed_double, lit = (\<lambda>i. fl (of_int i))\<rparr>"

section \<open>Symbol directory (symbols.ts)\<close>

definition ASSET_TYPE_MAP :: "string obj" where
  "ASSET_TYPE_MAP =
     [(''crypto'', ''crypto''),
      (''equity'', ''equity''),
      (''fx'', ''fx''),
      (''rates'', ''rates''),
      (''commodity'', ''commodity''),
      (''kalshi'', ''kalshi''),
      (''nav'', ''nav''),
      (''metal'', ''commodity'')]"

record TickerInfo =
  feedId :: int
  assetType :: string

type_synonym directory = "TickerInfo obj obj"

text \<open>
  An entry of the upstream catalog, with the fields the program reads at the types it
  reads them: three strings and the numeric id \<^verbatim>\<open>pyth_lazer_id\<close>.
\<close>

record CatalogItem =
  state :: string
  asset_type :: string
  symbol :: string
  pyth_lazer_id :: int

text \<open>
  \<^verbatim>\<open>String.prototype.indexOf\<close> and \<^verbatim>\<open>lastIndexOf\<close> for a one-character pattern
  (\<open>-1\<close> when it does not occur), and \<^verbatim>\<open>substring(start, end)\<close> as the program calls it:
  with \<open>start \<le> end \<le> length\<close>, or without \<open>end\<close>.
\<close>

definition indexOf :: "string \<Rightarrow> char \<Rightarrow> int" where
  "indexOf s c = (if c \<in> set s then int (length (takeWhile (\<lambda>x. x \<noteq> c) s)) else - 1)"

definition lastIndexOf :: "string \<Rightarrow> char \<Rightarrow> int" where
  "lastIndexOf s c =
     (if c \<in> set s then int (length s) - 1 - int (length (takeWhile (\<lambda>x. x \<noteq> c) (rev s)))
      else - 1)"

definition substring :: "string \<Rightarrow> nat \<Rightarrow> nat option \<Rightarrow> string" where
  "substring s start fin =
     (case fin of None \<Rightarrow> drop start s | Some e \<Rightarrow> take (e - start) (drop start s))"

definition parseTickerName :: "string \<Rightarrow> string option" where
  "parseTickerName name =
     (let slashIdx = indexOf name (CHR ''/'')
      in if slashIdx = - 1 then None
         else
           (let prefix = substring name 0 (Some (nat slashIdx));
                quote = substring name (nat (slashIdx + 1)) None;
                dotIdx = lastIndexOf prefix (CHR ''.'')
            in if dotIdx = - 1 then None
               else
                 (let base = substring prefix (nat (dotIdx + 1)) None
                  in if base = [] \<or> quote = [] then None
                     else Some (base @ ''-'' @ quote))))"

text \<open>The body of the loop of \<open>initSymbols\<close>, on the map under construction.\<close>

definition ingest_item :: "'a obj \<Rightarrow> CatalogItem \<Rightarrow> directory \<Rightarrow> directory" where
  "ingest_item configured item m =
     (if state item \<noteq> ''stable'' then m
      else
        (case obj_get ASSET_TYPE_MAP (asset_type item) of
           None \<Rightarrow> m
         | Some mappedType \<Rightarrow>
             if mappedType = [] \<or> obj_get configured mappedType = None then m
             else
               (case parseTickerName (symbol item) of
                  None \<Rightarrow> m
                | Some ticker \<Rightarrow>
                    if ticker = [] then m
                    else
                      (let m1 = (if obj_get m mappedType = None then obj_set m mappedType [] else m)
                       in case obj_get m1 mappedType of
                            None \<Rightarrow> m1
                          | Some inner \<Rightarrow>
                              if obj_get inner ticker = None
                              then obj_set m1 mappedType
                                     (obj_set inner ticker
                                        \<lparr>feedId = pyth_lazer_id item, assetType = mappedType\<rparr>)
                              else m1))))"

fun ingest_loop :: "'a obj \<Rightarrow> CatalogItem list \<Rightarrow> directory \<Rightarrow> directory" where
  "ingest_loop configured [] m = m"
| "ingest_loop configured (item # items) m = ingest_loop configured items (ingest_item configured item m)"

text \<open>
  The answer of the upstream catalog: the request failed, the status was not ok, the
  body was not JSON, or the array of entries. Every failure rejects the promise of
  \<open>initSymbols\<close>, and \<open>main\<close> then exits.
\<close>

datatype upstream =
    FetchFailed
  | NotOk nat string
  | BodyNotJson
  | Catalog "CatalogItem list"

datatype ingest_error =
    FetchError
  | StatusError string
  | JsonError

definition initSymbols :: "'n PricingConfig \<Rightarrow> upstream \<Rightarrow> ingest_error + directory" where
  "initSymbols cfg res =
     (case res of
        FetchFailed \<Rightarrow> Inl FetchError
      | NotOk st txt \<Rightarrow> Inl (StatusError (''Failed to fetch symbols: '' @ digits10 st @ '' '' @ txt))
      | BodyNotJson \<Rightarrow> Inl JsonError
      | Catalog data \<Rightarrow> Inr (ingest_loop (assetTypes cfg) data []))"

definition getTickerInfo :: "directory \<Rightarrow> string \<Rightarrow> string \<Rightarrow> TickerInfo option" where
  "getTickerInfo byAssetType atype ticker =
     (case obj_get byAssetType atype of None \<Rightarrow> None | Some tickers \<Rightarrow> obj_get tickers ticker)"

definition getTickersForAssetType :: "directory \<Rightarrow> string \<Rightarrow> TickerInfo obj" where
  "getTickersForAssetType byAssetType atype =
     (case obj_get byAssetType atype of None \<Rightarrow> [] | Some tickers \<Rightarrow> tickers)"

definition getAllTickers :: "directory \<Rightarrow> directory" where
  "getAllTickers byAssetType = byAssetType"

text \<open>
  What an entry contributes, in the words of the specification: the entry is stable, its
  upstream asset type has an alias that is configured, and its symbol parses. The result
  is the internal asset type and the ticker.
\<close>

definition normalize_item :: "'a obj \<Rightarrow> CatalogItem \<Rightarrow> (string \<times> string) option" where
  "normalize_item configured item =
     (if state item = ''stable''
      then (case obj_get ASSET_TYPE_MAP (asset_type item) of
              None \<Rightarrow> None
            | Some mappedType \<Rightarrow>
                if obj_get configured mappedType = None then None
                else (case parseTickerName (symbol item) of
                        None \<Rightarrow> None
                      | Some ticker \<Rightarrow> Some (mappedType, ticker)))
      else None)"

section \<open>HTTP responses and request validation\<close>

text \<open>
  \<^verbatim>\<open>res.status(s).json({error: {...}})\<close> is a response with status \<open>s\<close> and an error body;
  \<^verbatim>\<open>res.json(x)\<close> has status 200. The field \<open>hint\<close> is present in one handler only.
\<close>

record error_body =
  code :: string
  message :: string
  hint :: "string option"

record 'b response =
  status :: nat
  body :: "error_body + 'b"

definition error_response :: "nat \<Rightarrow> string \<Rightarrow> string \<Rightarrow> string option \<Rightarrow> 'b response" where
  "error_response s c m h = \<lparr>status = s, body = Inl \<lparr>code = c, message = m, hint = h\<rparr>\<rparr>"

definition ok_response :: "'b \<Rightarrow> 'b response" where
  "ok_response x = \<lparr>status = 200, body = Inr x\<rparr>"

text \<open>\<^verbatim>\<open>Array.prototype.join\<close> on strings.\<close>

fun join :: "string \<Rightarrow> string list \<Rightarrow> string" where
  "join sep [] = []"
| "join sep [x] = x"
| "join sep (x # y # ys) = x @ sep @ join sep (y # ys)"

text \<open>
  An issue of a failed \<^verbatim>\<open>safeParse\<close> is a path and a text; the handlers print the issues as
  \<^verbatim>\<open>path.join("."): message\<close>, joined by commas. The texts are the defaults of the zod library.
\<close>

type_synonym issue = "string list \<times> string"

definition format_issues :: "issue list \<Rightarrow> string" where
  "format_issues issues = join '', '' (map (\<lambda>(p, m). join ''.'' p @ '': '' @ m) issues)"

definition json_typename :: "'n json \<Rightarrow> string" where
  "json_typename j =
     (case j of
        JNull \<Rightarrow> ''null''
      | JBool b \<Rightarrow> ''boolean''
      | JNum n \<Rightarrow> ''number''
      | JStr s \<Rightarrow> ''string''
      | JArr xs \<Rightarrow> ''array''
      | JObj fs \<Rightarrow> ''object'')"

section \<open>Purchase flow controller (routes/purchase.ts)\<close>

text \<open>The regular expression \<^verbatim>\<open>/^[A-Z0-9]+-[A-Z]+$/\<close>, matched against the whole string.\<close>

definition is_upper :: "char \<Rightarrow> bool" where
  "is_upper c \<longleftrightarrow> 65 \<le> (of_char c :: nat) \<and> (of_char c :: nat) \<le> 90"

definition is_digit :: "char \<Rightarrow> bool" where
  "is_digit c \<longleftrightarrow> 48 \<le> (of_char c :: nat) \<and> (of_char c :: nat) \<le> 57"

definition is_upper_or_digit :: "char \<Rightarrow> bool" where
  "is_upper_or_digit c \<longleftrightarrow> is_upper c \<or> is_digit c"

definition ticker_regex :: "string \<Rightarrow> bool" where
  "ticker_regex s =
     (let base = takeWhile is_upper_or_digit s;
          rest = dropWhile is_upper_or_digit s
      in base \<noteq> [] \<and>
         (case rest of
            [] \<Rightarrow> False
          | c # quote \<Rightarrow> c = CHR ''-'' \<and> quote \<noteq> [] \<and> list_all is_upper quote))"

text \<open>
  The lexical pattern in the words of the specification: an uppercase alphanumeric base, a
  hyphen, an uppercase alphanumeric quote.
\<close>

definition spec_ticker_pattern :: "string \<Rightarrow> bool" where
  "spec_ticker_pattern s =
     (let base = takeWhile is_upper_or_digit s;
          rest = dropWhile is_upper_or_digit s
      in base \<noteq> [] \<and>
         (case rest of
            [] \<Rightarrow> False
          | c # quote \<Rightarrow> c = CHR ''-'' \<and> quote \<noteq> [] \<and> list_all is_upper_or_digit quote))"

text \<open>
  \<open>purchaseBody\<close>: \<^verbatim>\<open>z.object({ticker: z.string().regex(...)})\<close>. The request body is what
  the JSON body parser left in \<^verbatim>\<open>req.body\<close>, \<open>None\<close> for \<^verbatim>\<open>undefined\<close>.
\<close>

definition purchaseBody_safeParse :: "'n json option \<Rightarrow> issue list + string" where
  "purchaseBody_safeParse b =
     (case b of
        None \<Rightarrow> Inl [([], ''Required'')]
      | Some (JObj fs) \<Rightarrow>
          (case map_of fs ''ticker'' of
             None \<Rightarrow> Inl [([''ticker''], ''Required'')]
           | Some (JStr t) \<Rightarrow> if ticker_regex t then Inr t else Inl [([''ticker''], ''Invalid'')]
           | Some v \<Rightarrow> Inl [([''ticker''], ''Expected string, received '' @ json_typename v)])
      | Some v \<Rightarrow> Inl [([], ''Expected object, received '' @ json_typename v)])"

record env_config =
  PYTH_PRO_ACCESS_TOKEN :: string
  PYTH_PRO_WS_URLS :: "string list"

record 'n request =
  req_body :: "'n json option"
  payerAddress :: "string option"
  x_payer_address :: "string option"

record subscribe_message =
  sub_type :: string
  subscriptionId :: nat
  priceFeedIds :: "int list"
  properties :: "string list"
  formats :: "string list"
  sub_channel :: string
  deliveryFormat :: string
  jsonBinaryEncoding :: string

record pythPro_block =
  accessToken :: string
  websocketUrls :: "string list"
  authMethod :: string
  subscribe :: subscribe_message

record credential =
  cr_ticker :: string
  cr_feedId :: int
  cr_assetType :: string
  cr_channel :: string
  cr_duration :: string
  pricePaid :: "string option"
  pythPro :: pythPro_block

record audit_record =
  wallet :: string
  au_ticker :: string
  au_feedId :: int
  au_assetType :: string
  au_channel :: string
  au_duration :: string
  au_pricePaid :: "string option"

text \<open>
  The handler of one registered route. It reads the pricing snapshot and the symbol
  directory, and returns the response together with the audit records it logged.
\<close>

definition purchaseHandler ::
  "('n::{times,inverse}) js_number \<Rightarrow> env_config \<Rightarrow> 'n PricingConfig \<Rightarrow> directory \<Rightarrow>
   string \<Rightarrow> string \<Rightarrow> string \<Rightarrow> 'n request \<Rightarrow> credential response \<times> audit_record list" where
  "purchaseHandler js env cfg byAssetType atype channelSlug duration req =
     (case purchaseBody_safeParse (req_body req) of
        Inl issues \<Rightarrow> (error_response 400 ''VALIDATION_ERROR'' (format_issues issues) None, [])
      | Inr ticker \<Rightarrow>
          (case getTickerInfo byAssetType atype ticker of
             None \<Rightarrow>
               (let available = obj_keys (getTickersForAssetType byAssetType atype)
                in (error_response 400 ''INVALID_TICKER''
                      (''Ticker '' @ [CHR 0x27] @ ticker @ [CHR 0x27] @ '' is not a valid '' @ atype @
                       '' ticker. Available: '' @ join '', '' (take 10 available) @
                       (if 10 < length available
                        then '' ... ('' @ digits10 (length available) @ '' total)''
                        else []))
                      None, []))
           | Some tickerInfo \<Rightarrow>
               (let price = computePrice js cfg atype channelSlug duration;
                    ws = (case obj_get (channels cfg) channelSlug of
                            Some ch \<Rightarrow> wsChannel ch
                          | None \<Rightarrow> ''fixed_rate@200ms'');
                    payerWallet =
                      (case payerAddress req of
                         Some a \<Rightarrow> a
                       | None \<Rightarrow> (case x_payer_address req of Some h \<Rightarrow> h | None \<Rightarrow> ''unknown''))
                in (ok_response
                      \<lparr>cr_ticker = ticker,
                       cr_feedId = feedId tickerInfo,
                       cr_assetType = atype,
                       cr_channel = channelSlug,
                       cr_duration = duration,
                       pricePaid = map_option formatted price,
                       pythPro =
                         \<lparr>accessToken = PYTH_PRO_ACCESS_TOKEN env,
                          websocketUrls = PYTH_PRO_WS_URLS env,
                          authMethod = ''Pass as Authorization: Bearer {accessToken} header when connecting to WebSocket'',
                          subscribe =
                            \<lparr>sub_type = ''subscribe'',
                             subscriptionId = 1,
                             priceFeedIds = [feedId tickerInfo],
                             properties = [''price'', ''bestBidPrice'', ''bestAskPrice'', ''exponent'', ''confidence''],
                             formats = [''evm'', ''solana''],
                             sub_channel = ws,
                             deliveryFormat = ''json'',
                             jsonBinaryEncoding = ''hex''\<rparr>\<rparr>\<rparr>,
                    [\<lparr>wallet = payerWallet,
                      au_ticker = ticker,
                      au_feedId = feedId tickerInfo,
                      au_assetType = atype,
                      au_channel = channelSlug,
                      au_duration = duration,
                      au_pricePaid = map_option formatted price\<rparr>]))))"

text \<open>
  The outcome the specification names for a route without a price: a response with
  status 500 that is not one of the two ticker errors.
\<close>

definition route_desync_error :: "'b response \<Rightarrow> bool" where
  "route_desync_error r \<longleftrightarrow>
     status r = 500 \<and>
     (case body r of
        Inl e \<Rightarrow> code e \<noteq> ''VALIDATION_ERROR'' \<and> code e \<noteq> ''INVALID_TICKER''
      | Inr x \<Rightarrow> False)"

section \<open>Pricing endpoint (routes/pricing.ts)\<close>

text \<open>
  The repository holds two versions of this router: one takes a single ticker in the
  query (\<open>pricingRouter_ticker\<close>), the other a comma-separated list of tickers
  (\<open>pricingRouter_tickers\<close>). A query value is a string, or what the query parser makes of
  a repeated or bracketed parameter: an array or an object, which the schema rejects.
\<close>

datatype qvalue = QStr string | QArr | QObj

record query =
  q_ticker :: "qvalue option"
  q_assetType :: "qvalue option"
  q_channel :: "qvalue option"

definition query_field :: "string \<Rightarrow> qvalue option \<Rightarrow> issue list \<times> string option" where
  "query_field name v =
     (case v of
        None \<Rightarrow> ([], None)
      | Some (QStr s) \<Rightarrow> ([], Some s)
      | Some QArr \<Rightarrow> ([([name], ''Expected string, received array'')], None)
      | Some QObj \<Rightarrow> ([([name], ''Expected string, received object'')], None))"

definition querySchema_safeParse ::
  "query \<Rightarrow> issue list + (string option \<times> string option \<times> string option)" where
  "querySchema_safeParse q =
     (let (i1, t) = query_field ''ticker'' (q_ticker q);
          (i2, a) = query_field ''assetType'' (q_assetType q);
          (i3, c) = query_field ''channel'' (q_channel q)
      in if i1 @ i2 @ i3 = [] then Inr (t, a, c) else Inl (i1 @ i2 @ i3))"

text \<open>A string is truthy when it is neither \<^verbatim>\<open>undefined\<close> nor empty.\<close>

definition truthy :: "string option \<Rightarrow> bool" where
  "truthy v = (case v of None \<Rightarrow> False | Some s \<Rightarrow> s \<noteq> [])"

record pricing_row =
  row_assetType :: string
  row_channel :: string
  row_duration :: string
  row_price :: string
  purchaseUrl :: string

text \<open>
  The body of a 200 response. In \<open>supportedTickers\<close> a ticker is given with its
  \<^verbatim>\<open>feedId\<close>, which is \<open>None\<close> when the program found \<^verbatim>\<open>undefined\<close> there.
\<close>

record 'n pricing_body =
  pb_assetTypes :: "'n AssetTypeDef obj"
  pb_channels :: "'n ChannelDef obj"
  pb_durations :: "'n Duration list"
  pricing :: "pricing_row list"
  supportedTickers :: "int option obj obj"
  instructions :: string

definition instructions_text :: string where
  \<open>instructions_text =
     ''Purchase access via POST /v1/purchase/:assetType/:channel/:duration with {"ticker":"BTC-USD"}. '' @
     ''After x402 payment, the response includes Pyth Pro credentials and a ready-to-use subscribe message.''\<close>

definition pricing_matrix ::
  "('n::{times,inverse}) js_number \<Rightarrow> 'n PricingConfig \<Rightarrow> string list \<Rightarrow> string list \<Rightarrow> pricing_row list" where
  "pricing_matrix js cfg effectiveAssetTypes filteredChannels =
     concat (map (\<lambda>a.
       concat (map (\<lambda>ch.
         concat (map (\<lambda>dur.
           (case computePrice js cfg a ch (path dur) of
              Some p \<Rightarrow>
                [\<lparr>row_assetType = a,
                  row_channel = ch,
                  row_duration = path dur,
                  row_price = formatted p,
                  purchaseUrl = ''/v1/purchase/'' @ a @ ''/'' @ ch @ ''/'' @ path dur\<rparr>]
            | None \<Rightarrow> []))
           (durations cfg)))
         filteredChannels))
       effectiveAssetTypes)"

definition feed_ids :: "TickerInfo obj \<Rightarrow> int option obj" where
  "feed_ids tickers = map (\<lambda>(t, info). (t, Some (feedId info))) tickers"

text \<open>The checks of the two filters \<^verbatim>\<open>assetType\<close> and \<^verbatim>\<open>channel\<close>, the same in both versions.\<close>

definition filter_error :: "'n PricingConfig \<Rightarrow> string option \<Rightarrow> string option \<Rightarrow> error_body option" where
  "filter_error cfg atype channel =
     (if truthy atype \<and> obj_get (assetTypes cfg) (the atype) = None
      then Some \<lparr>code = ''INVALID_ASSET_TYPE'',
                 message = ''Asset type '' @ [CHR 0x27] @ the atype @ [CHR 0x27] @
                           '' is not supported. Available: '' @ join '', '' (obj_keys (assetTypes cfg)),
                 hint = None\<rparr>
      else if truthy channel \<and> obj_get (channels cfg) (the channel) = None
      then Some \<lparr>code = ''INVALID_CHANNEL'',
                 message = ''Channel '' @ [CHR 0x27] @ the channel @ [CHR 0x27] @
                           '' is not supported. Available: '' @ join '', '' (obj_keys (channels cfg)),
                 hint = None\<rparr>
      else None)"

subsection \<open>Inherited properties\<close>

text \<open>
  The ticker tables of the directory are plain objects, so besides its own tickers each
  of them has the properties of \<^verbatim>\<open>Object.prototype\<close>, listed here from the ECMAScript
  specification (its annex B included). The routers read the tables with tickers taken
  from the request: \<^verbatim>\<open>t in tickers\<close> holds for an own ticker and for an inherited name
  (\<open>has_property\<close>), and \<^verbatim>\<open>tickers[t]\<close> is then an object or a function, which is truthy
  and whose \<^verbatim>\<open>feedId\<close> is \<^verbatim>\<open>undefined\<close> when it is inherited (\<open>lookup_feedId\<close>: \<open>None\<close>
  when \<^verbatim>\<open>tickers[t]\<close> is \<^verbatim>\<open>undefined\<close>, \<open>Some None\<close> for an inherited value).
\<close>

definition Object_prototype_names :: "string list" where
  "Object_prototype_names =
     [''constructor'', ''__defineGetter__'', ''__defineSetter__'', ''hasOwnProperty'',
      ''__lookupGetter__'', ''__lookupSetter__'', ''isPrototypeOf'', ''propertyIsEnumerable'',
      ''toString'', ''valueOf'', ''__proto__'', ''toLocaleString'']"

definition inherited :: "string \<Rightarrow> bool" where
  "inherited k \<longleftrightarrow> k \<in> set Object_prototype_names"

definition has_property :: "'v obj \<Rightarrow> string \<Rightarrow> bool" where
  "has_property obj k \<longleftrightarrow> obj_get obj k \<noteq> None \<or> inherited k"

definition lookup_feedId :: "TickerInfo obj \<Rightarrow> string \<Rightarrow> int option option" where
  "lookup_feedId tickers t =
     (case obj_get tickers t of
        Some info \<Rightarrow> Some (Some (feedId info))
      | None \<Rightarrow> if inherited t then Some None else None)"

text \<open>
  The routers also read the pricing config and the top level of the directory, with the
  \<^verbatim>\<open>assetType\<close> and \<^verbatim>\<open>channel\<close> of the request and with the configured keys. For a key
  that is the name of an inherited property these reads give built-in functions, whose
  own properties the program then goes on to read. The models of the routers do not
  follow it there: they stop with \<open>Unmodelled\<close> when one of these keys is such a name
  (\<open>within_model\<close> is the opposite), and give the \<open>Answer\<close> of the program otherwise.
\<close>

datatype 'a modelled = Answer 'a | Unmodelled

definition within_model :: "'n PricingConfig \<Rightarrow> string option \<Rightarrow> string option \<Rightarrow> bool" where
  "within_model cfg atype channel \<longleftrightarrow>
     \<not> list_ex inherited (obj_keys (assetTypes cfg)) \<and>
     \<not> list_ex inherited (obj_keys (channels cfg)) \<and>
     \<not> (truthy atype \<and> inherited (the atype)) \<and>
     \<not> (truthy channel \<and> inherited (the channel))"

subsection \<open>The version with a single ticker\<close>

text \<open>
  The response object is built with a computed key, \<^verbatim>\<open>{ [ticker]: ... }\<close>, which makes an
  own property for every ticker.
\<close>

definition supported_ticker :: "directory \<Rightarrow> string option \<Rightarrow> string list \<Rightarrow> int option obj obj" where
  "supported_ticker allTickers ticker effectiveAssetTypes =
     foldl (\<lambda>acc a.
        (case obj_get allTickers a of
           None \<Rightarrow> acc
         | Some tickers \<Rightarrow>
             if truthy ticker
             then (case lookup_feedId tickers (the ticker) of
                     Some fid \<Rightarrow> obj_set acc a [(the ticker, fid)]
                   | None \<Rightarrow> acc)
             else obj_set acc a (feed_ids tickers)))
       [] effectiveAssetTypes"

definition pricingRouter_ticker ::
  "('n::{times,inverse}) js_number \<Rightarrow> 'n PricingConfig \<Rightarrow> directory \<Rightarrow> query \<Rightarrow>
   'n pricing_body response modelled" where
  "pricingRouter_ticker js cfg byAssetType q =
     (case querySchema_safeParse q of
        Inl issues \<Rightarrow> Answer (error_response 400 ''VALIDATION_ERROR'' (format_issues issues) None)
      | Inr (ticker, atype, channel) \<Rightarrow>
          if \<not> within_model cfg atype channel then Unmodelled
          else
            (case filter_error cfg atype channel of
               Some e \<Rightarrow> Answer \<lparr>status = 400, body = Inl e\<rparr>
             | None \<Rightarrow>
                 (let filteredAssetTypes =
                        (if truthy atype then [the atype] else obj_keys (assetTypes cfg));
                      effectiveAssetTypes =
                        (if truthy ticker
                         then filter (\<lambda>a. has_property (getTickersForAssetType byAssetType a) (the ticker))
                                filteredAssetTypes
                         else filteredAssetTypes)
                  in if truthy ticker \<and> length effectiveAssetTypes = 0
                     then Answer
                            (error_response 400 ''INVALID_TICKER''
                               (''Ticker '' @ [CHR 0x27] @ the ticker @ [CHR 0x27] @ '' not found'' @
                                (if truthy atype
                                 then '' in asset type '' @ [CHR 0x27] @ the atype @ [CHR 0x27]
                                 else []))
                               None)
                     else
                       (let filteredChannels =
                              (if truthy channel then [the channel] else obj_keys (channels cfg))
                        in Answer
                             (ok_response
                                \<lparr>pb_assetTypes = assetTypes cfg,
                                 pb_channels = channels cfg,
                                 pb_durations = durations cfg,
                                 pricing = pricing_matrix js cfg effectiveAssetTypes filteredChannels,
                                 supportedTickers =
                                   supported_ticker (getAllTickers byAssetType) ticker effectiveAssetTypes,
                                 instructions = instructions_text\<rparr>)))))"

subsection \<open>The version with a list of tickers\<close>

text \<open>
  \<^verbatim>\<open>split(",")\<close> and \<^verbatim>\<open>trim()\<close>. \<^verbatim>\<open>trim\<close> removes from both ends the white space and the
  line terminators of ECMAScript, listed here by code point and given by their UTF-8
  encodings: U+0009 to U+000D, U+0020, U+00A0, U+1680, U+2000 to U+200A, U+2028, U+2029,
  U+202F, U+205F, U+3000 and U+FEFF. \<open>strip ws s\<close> removes from the front of \<open>s\<close> every
  leading occurrence of one of the words \<open>ws\<close>; the end of a string is the front of its
  reverse.
\<close>

fun split_on :: "char \<Rightarrow> string \<Rightarrow> string list" where
  "split_on c [] = [[]]"
| "split_on c (x # xs) =
     (if x = c then [] # split_on c xs
      else (case split_on c xs of [] \<Rightarrow> [[x]] | w # ws \<Rightarrow> (x # w) # ws))"

definition white_space :: "string list" where
  "white_space =
     [[CHR 0x09], [CHR 0x0A], [CHR 0x0B], [CHR 0x0C], [CHR 0x0D], [CHR 0x20],
      [CHR 0xC2, CHR 0xA0],
      [CHR 0xE1, CHR 0x9A, CHR 0x80],
      [CHR 0xE2, CHR 0x80, CHR 0x80], [CHR 0xE2, CHR 0x80, CHR 0x81], [CHR 0xE2, CHR 0x80, CHR 0x82],
      [CHR 0xE2, CHR 0x80, CHR 0x83], [CHR 0xE2, CHR 0x80, CHR 0x84], [CHR 0xE2, CHR 0x80, CHR 0x85],
      [CHR 0xE2, CHR 0x80, CHR 0x86], [CHR 0xE2, CHR 0x80, CHR 0x87], [CHR 0xE2, CHR 0x80, CHR 0x88],
      [CHR 0xE2, CHR 0x80, CHR 0x89], [CHR 0xE2, CHR 0x80, CHR 0x8A],
      [CHR 0xE2, CHR 0x80, CHR 0xA8], [CHR 0xE2, CHR 0x80, CHR 0xA9], [CHR 0xE2, CHR 0x80, CHR 0xAF],
      [CHR 0xE2, CHR 0x81, CHR 0x9F],
      [CHR 0xE3, CHR 0x80, CHR 0x80],
      [CHR 0xEF, CHR 0xBB, CHR 0xBF]]"

function strip :: "string list \<Rightarrow> string \<Rightarrow> string" where
  "strip ws s =
     (case find (\<lambda>w. w \<noteq> [] \<and> take (length w) s = w) ws of
        Some w \<Rightarrow> strip ws (drop (length w) s)
      | None \<Rightarrow> s)"
  by auto
termination
proof (relation "measure (\<lambda>(ws, s). length s)")
  show "wf (measure (\<lambda>(ws, s). length s))" by simp
next
  fix ws :: "string list" and s w :: string
  assume "find (\<lambda>w. w \<noteq> [] \<and> take (length w) s = w) ws = Some w"
  then have "w \<noteq> [] \<and> take (length w) s = w"
    by (induction ws) (auto split: if_splits)
  then have "0 < length w" "length w \<le> length s"
    by (auto simp: min_def dest: arg_cong [where f = length] split: if_splits)
  then show "((ws, drop (length w) s), (ws, s)) \<in> measure (\<lambda>(ws, s). length s)"
    by (cases w) auto
qed

declare strip.simps [simp del]

definition trim :: "string \<Rightarrow> string" where
  "trim s = rev (strip (map rev white_space) (rev (strip white_space s)))"

definition parse_tickers :: "string option \<Rightarrow> string list" where
  "parse_tickers tickerParam =
     (if truthy tickerParam
      then filter (\<lambda>t. t \<noteq> []) (map trim (split_on (CHR '','') (the tickerParam)))
      else [])"

text \<open>
  \<^verbatim>\<open>allTickerData[at]?.[t]\<close> is truthy when the directory has a table for \<open>at\<close> and the
  table has the property \<open>t\<close>, its own or inherited. The assignment
  \<^verbatim>\<open>matched[t] = ...\<close> makes an own property, except for the key \<^verbatim>\<open>__proto__\<close>, where it
  sets the prototype of \<^verbatim>\<open>matched\<close> and leaves its own properties as they are.
\<close>

definition found_in :: "directory \<Rightarrow> string \<Rightarrow> string \<Rightarrow> bool" where
  "found_in allTickerData a t =
     (case obj_get allTickerData a of
        None \<Rightarrow> False
      | Some tickers \<Rightarrow> lookup_feedId tickers t \<noteq> None)"

definition supported_tickers :: "directory \<Rightarrow> string list \<Rightarrow> string list \<Rightarrow> int option obj obj" where
  "supported_tickers allTickers tickers effectiveAssetTypes =
     foldl (\<lambda>acc a.
        (case obj_get allTickers a of
           None \<Rightarrow> acc
         | Some atTickers \<Rightarrow>
             if 0 < length tickers
             then (let matched =
                         foldl (\<lambda>mt t.
                            (case lookup_feedId atTickers t of
                               Some fid \<Rightarrow> if t = ''__proto__'' then mt else obj_set mt t fid
                             | None \<Rightarrow> mt))
                           [] tickers
                   in if 0 < length (obj_keys matched) then obj_set acc a matched else acc)
             else obj_set acc a (feed_ids atTickers)))
       [] effectiveAssetTypes"

definition symbols_url :: string where
  "symbols_url = ''https://history.pyth-lazer.dourolabs.app/history/v1/symbols''"

definition pricingRouter_tickers ::
  "('n::{times,inverse}) js_number \<Rightarrow> 'n PricingConfig \<Rightarrow> directory \<Rightarrow> query \<Rightarrow>
   'n pricing_body response modelled" where
  "pricingRouter_tickers js cfg byAssetType q =
     (case querySchema_safeParse q of
        Inl issues \<Rightarrow> Answer (error_response 400 ''VALIDATION_ERROR'' (format_issues issues) None)
      | Inr (tickerParam, atype, channel) \<Rightarrow>
          if \<not> within_model cfg atype channel then Unmodelled
          else
            (case filter_error cfg atype channel of
               Some e \<Rightarrow> Answer \<lparr>status = 400, body = Inl e\<rparr>
             | None \<Rightarrow>
                 (let tickers = parse_tickers tickerParam;
                      invalidTickers =
                        (if 0 < length tickers
                         then filter (\<lambda>t. \<not> list_ex (\<lambda>a. found_in (getAllTickers byAssetType) a t)
                                              (obj_keys (assetTypes cfg)))
                                tickers
                         else [])
                  in if 0 < length tickers \<and> 0 < length invalidTickers
                     then Answer
                            (error_response 400 ''INVALID_TICKER''
                               (''Ticker(s) not found: '' @ join '', '' invalidTickers)
                               (Some (''Look up valid symbols and feed IDs at '' @ symbols_url)))
                     else
                       (let filteredAssetTypes =
                              (if truthy atype then [the atype] else obj_keys (assetTypes cfg));
                            effectiveAssetTypes =
                              (if 0 < length tickers
                               then filter (\<lambda>a. list_ex (has_property (getTickersForAssetType byAssetType a))
                                                  tickers)
                                      filteredAssetTypes
                               else filteredAssetTypes);
                            filteredChannels =
                              (if truthy channel then [the channel] else obj_keys (channels cfg))
                        in Answer
                             (ok_response
                                \<lparr>pb_assetTypes = assetTypes cfg,
                                 pb_channels = channels cfg,
                                 pb_durations = durations cfg,
                                 pricing = pricing_matrix js cfg effectiveAssetTypes filteredChannels,
                                 supportedTickers =
                                   supported_tickers (getAllTickers byAssetType) tickers effectiveAssetTypes,
                                 instructions = instructions_text\<rparr>)))))"

text \<open>
  A response lists the available tickers, in the words of the specification: every
  ticker of the directory occurs in its message or in its hint.
\<close>

fun occurs_in :: "string \<Rightarrow> string \<Rightarrow> bool" where
  "occurs_in w [] = (w = [])"
| "occurs_in w (c # cs) = (take (length w) (c # cs) = w \<or> occurs_in w cs)"

definition all_tickers :: "directory \<Rightarrow> string list" where
  "all_tickers byAssetType = concat (map (\<lambda>(a, tickers). obj_keys tickers) byAssetType)"

definition lists_available_tickers :: "directory \<Rightarrow> 'b response \<Rightarrow> bool" where
  "lists_available_tickers byAssetType r =
     (case body r of
        Inl e \<Rightarrow>
          list_all (\<lambda>t. occurs_in t (message e) \<or> (case hint e of None \<Rightarrow> False | Some h \<Rightarrow> occurs_in t h))
            (all_tickers byAssetType)
      | Inr x \<Rightarrow> False)"

section \<open>Reading a response\<close>

definition error_code :: "'b response \<Rightarrow> string option" where
  "error_code r = (case body r of Inl e \<Rightarrow> Some (code e) | Inr x \<Rightarrow> None)"

definition credential_of :: "'b response \<Rightarrow> 'b option" where
  "credential_of r = (case body r of Inl e \<Rightarrow> None | Inr x \<Rightarrow> Some x)"

section \<open>A sample deployment\<close>

text \<open>
  A pricing document with two durations, two asset types and two channels, the snapshot
  it parses to, a document the schema rejects, and the snapshot after a reload that
  dropped the duration \<open>24h\<close> and the channel \<open>realtime\<close>.
\<close>

definition example_doc :: "double json" where
  "example_doc =
     JObj [(''durations'',
              JArr [JObj [(''path'', JStr ''1h''), (''label'', JStr ''1 hour''), (''basePriceDollars'', JNum (Fin 5))],
                    JObj [(''path'', JStr ''24h''), (''label'', JStr ''24 hours''), (''basePriceDollars'', JNum (Fin 50))]]),
           (''assetTypes'',
              JObj [(''crypto'', JObj [(''label'', JStr ''Crypto''), (''multiplier'', JNum (Fin 1))]),
                    (''commodity'', JObj [(''label'', JStr ''Commodities''), (''multiplier'', JNum (Fin (3 / 2)))])]),
           (''channels'',
              JObj [(''fixed'', JObj [(''label'', JStr ''Fixed rate''), (''wsChannel'', JStr ''fixed_rate@200ms''),
                                     (''multiplier'', JNum (Fin 2))]),
                    (''realtime'', JObj [(''label'', JStr ''Real time''), (''wsChannel'', JStr ''real_time''),
                                        (''multiplier'', JNum (Fin (5 / 2)))])])]"

definition example_cfg :: "double PricingConfig" where
  "example_cfg =
     \<lparr>durations = [\<lparr>path = ''1h'', label = ''1 hour'', basePriceDollars = Fin 5\<rparr>,
                   \<lparr>path = ''24h'', label = ''24 hours'', basePriceDollars = Fin 50\<rparr>],
      assetTypes = [(''crypto'', \<lparr>at_label = ''Crypto'', at_multiplier = Fin 1\<rparr>),
                    (''commodity'', \<lparr>at_label = ''Commodities'', at_multiplier = Fin (3 / 2)\<rparr>)],
      channels = [(''fixed'', \<lparr>ch_label = ''Fixed rate'', wsChannel = ''fixed_rate@200ms'', ch_multiplier = Fin 2\<rparr>),
                  (''realtime'', \<lparr>ch_label = ''Real time'', wsChannel = ''real_time'', ch_multiplier = Fin (5 / 2)\<rparr>)]\<rparr>"

definition broken_doc :: "double json" where
  "broken_doc =
     JObj [(''durations'', JArr []),
           (''assetTypes'', JObj [(''crypto'', JObj [(''label'', JStr ''Crypto''), (''multiplier'', JNum (Fin 1))])]),
           (''channels'', JObj [])]"

definition reloaded_cfg :: "double PricingConfig" where
  "reloaded_cfg =
     \<lparr>durations = [\<lparr>path = ''1h'', label = ''1 hour'', basePriceDollars = Fin 5\<rparr>],
      assetTypes = [(''crypto'', \<lparr>at_label = ''Crypto'', at_multiplier = Fin 1\<rparr>),
                    (''commodity'', \<lparr>at_label = ''Commodities'', at_multiplier = Fin (3 / 2)\<rparr>)],
      channels = [(''fixed'', \<lparr>ch_label = ''Fixed rate'', wsChannel = ''fixed_rate@200ms'', ch_multiplier = Fin 2\<rparr>)]\<rparr>"

text \<open>
  Two more snapshots for the arithmetic of \<open>computePrice\<close>, with the numbers a config
  document gives for the decimals written in it: the base price 0.51 with the
  multipliers 1 and 2.5, and the base price \<open>10 ^ 21\<close> with the multipliers 3 and 1.
\<close>

definition half_cent_cfg :: "double PricingConfig" where
  "half_cent_cfg =
     \<lparr>durations = [\<lparr>path = ''1h'', label = ''1 hour'', basePriceDollars = fl (51 / 100)\<rparr>],
      assetTypes = [(''crypto'', \<lparr>at_label = ''Crypto'', at_multiplier = fl 1\<rparr>)],
      channels = [(''realtime'', \<lparr>ch_label = ''Real time'', wsChannel = ''real_time'', ch_multiplier = fl (5 / 2)\<rparr>)]\<rparr>"

definition large_cfg :: "double PricingConfig" where
  "large_cfg =
     \<lparr>durations = [\<lparr>path = ''1h'', label = ''1 hour'', basePriceDollars = fl (10 ^ 21)\<rparr>],
      assetTypes = [(''crypto'', \<lparr>at_label = ''Crypto'', at_multiplier = fl 3\<rparr>)],
      channels = [(''fixed'', \<lparr>ch_label = ''Fixed rate'', wsChannel = ''fixed_rate@200ms'', ch_multiplier = fl 1\<rparr>)]\<rparr>"

text \<open>
  An upstream catalog: an entry that is not stable, two entries that both give the crypto
  ticker \<open>BTC-USD\<close> with an equity (not configured above) between them, a metal, and an
  entry whose symbol has no slash; and the directory built from it.
\<close>

definition example_catalog :: "CatalogItem list" where
  "example_catalog =
     [\<lparr>state = ''coming_soon'', asset_type = ''crypto'', symbol = ''Crypto.NEW/USD'', pyth_lazer_id = 7\<rparr>,
      \<lparr>state = ''stable'', asset_type = ''crypto'', symbol = ''Crypto.BTC/USD'', pyth_lazer_id = 1\<rparr>,
      \<lparr>state = ''stable'', asset_type = ''equity'', symbol = ''Equity.US.AAPL/USD'', pyth_lazer_id = 922\<rparr>,
      \<lparr>state = ''stable'', asset_type = ''crypto'', symbol = ''Crypto.FundingRate.BTC/USD'', pyth_lazer_id = 1001\<rparr>,
      \<lparr>state = ''stable'', asset_type = ''metal'', symbol = ''Metal.XAU/USD'', pyth_lazer_id = 346\<rparr>,
      \<lparr>state = ''stable'', asset_type = ''crypto'', symbol = ''BTCUSD'', pyth_lazer_id = 9\<rparr>]"

definition example_directory :: directory where
  "example_directory =
     [(''crypto'', [(''BTC-USD'', \<lparr>feedId = 1, assetType = ''crypto''\<rparr>)]),
      (''commodity'', [(''XAU-USD'', \<lparr>feedId = 346, assetType = ''commodity''\<rparr>)])]"

definition example_env :: env_config where
  "example_env =
     \<lparr>PYTH_PRO_ACCESS_TOKEN = ''test-token'',
      PYTH_PRO_WS_URLS = [''wss://pyth-lazer-0.dourolabs.app/v1/stream'',
                          ''wss://pyth-lazer-1.dourolabs.app/v1/stream'']\<rparr>"

definition request_for :: "string \<Rightarrow> double request" where
  "request_for t =
     \<lparr>req_body = Some (JObj [(''ticker'', JStr t)]), payerAddress = None, x_payer_address = None\<rparr>"

definition query_for :: "string \<Rightarrow> string option \<Rightarrow> query" where
  "query_for t a = \<lparr>q_ticker = Some (QStr t), q_assetType = map_option QStr a, q_channel = None\<rparr>"

section \<open>Properties of the pricing config store\<close>

declare digits10.simps [simp del]

lemma double_pos [simp]: "(0::double) < Fin x \<longleftrightarrow> 0 < x"
  by (simp add: less_double_def double_less_def zero_double_def)

subsection \<open>Objects\<close>

lemma obj_get_set: "obj_get (obj_set m k v) k' = (if k' = k then Some v else obj_get m k')"
  by (simp add: obj_get_def obj_set_def update_conv')

lemma obj_get_Nil: "obj_get [] k = None"
  by (simp add: obj_get_def)

lemma obj_get_None_keys: "obj_get m k = None \<longleftrightarrow> k \<notin> set (obj_keys m)"
  by (simp add: obj_get_def obj_keys_def map_of_eq_None_iff)

lemma obj_get_in_set: "obj_get m k = Some v \<Longrightarrow> (k, v) \<in> set m"
  by (simp add: obj_get_def map_of_SomeD)

lemma find_SomeD: "find P xs = Some x \<Longrightarrow> P x \<and> x \<in> set xs"
  by (induction xs) (auto split: if_splits)

lemma find_None_set: "find P xs = None \<longleftrightarrow> (\<forall>x \<in> set xs. \<not> P x)"
  by (induction xs) auto

subsection \<open>Decimal digits\<close>

lemma digits10_lt10: "n < 10 \<Longrightarrow> digits10 n = [digit_char n]"
  by (simp add: digits10.simps)

lemma digits10_ge10: "10 \<le> n \<Longrightarrow> digits10 n = digits10 (n div 10) @ [digit_char (n mod 10)]"
  by (subst digits10.simps) simp

lemma digits10_nonempty: "digits10 n \<noteq> []"
  by (subst digits10.simps) simp

lemma floor_half: "\<lfloor>(of_int k :: rat) + 1 / 2\<rfloor> = k"
  by (simp add: floor_eq_iff)

lemma digits10_short:
  assumes "length (digits10 k) \<le> 2"
  shows "''0'' = digits10 (k div 100)"
    and "replicate (2 - length (digits10 k)) (CHR ''0'') @ digits10 k =
         [digit_char (k div 10 mod 10), digit_char (k mod 10)]"
proof -
  have k: "k < 100"
  proof (rule ccontr)
    assume "\<not> k < 100"
    then have a: "10 \<le> k" and b: "10 \<le> k div 10" by simp_all
    have "0 < length (digits10 (k div 10 div 10))" using digits10_nonempty by simp
    then show False using assms digits10_ge10 [OF a] digits10_ge10 [OF b] by simp
  qed
  then show "''0'' = digits10 (k div 100)"
    by (simp add: digits10_lt10 digit_char_def)
  show "replicate (2 - length (digits10 k)) (CHR ''0'') @ digits10 k =
         [digit_char (k div 10 mod 10), digit_char (k mod 10)]"
  proof (cases "k < 10")
    case True
    then show ?thesis by (simp add: digits10_lt10 digit_char_def)
  next
    case False
    with k have "k div 10 < 10" "10 \<le> k" by simp_all
    then show ?thesis by (simp add: digits10_ge10 digits10_lt10)
  qed
qed

lemma digits10_long:
  assumes "\<not> length (digits10 k) \<le> 2"
  shows "take (length (digits10 k) - 2) (digits10 k) = digits10 (k div 100)"
    and "drop (length (digits10 k) - 2) (digits10 k) =
         [digit_char (k div 10 mod 10), digit_char (k mod 10)]"
proof -
  have a: "10 \<le> k" using assms by (cases "k < 10") (simp_all add: digits10_lt10)
  have b: "10 \<le> k div 10"
  proof (rule ccontr)
    assume "\<not> 10 \<le> k div 10"
    then have "k div 10 < 10" by simp
    then show False using assms digits10_ge10 [OF a] by (simp add: digits10_lt10)
  qed
  have c: "k div 10 div 10 = k div 100" by (simp add: div_mult2_eq [symmetric])
  have d: "digits10 k = digits10 (k div 100) @ [digit_char (k div 10 mod 10), digit_char (k mod 10)]"
    using digits10_ge10 [OF a] digits10_ge10 [OF b] c by simp
  show "take (length (digits10 k) - 2) (digits10 k) = digits10 (k div 100)"
    by (subst (1 2) d) simp
  show "drop (length (digits10 k) - 2) (digits10 k) =
         [digit_char (k div 10 mod 10), digit_char (k mod 10)]"
    by (subst (1 2) d) simp
qed

lemma fixed_digits_cents:
  assumes "nat \<lfloor>q * 100 + 1 / 2\<rfloor> = k"
  shows "fixed_digits q 2 =
     digits10 (k div 100) @ ''.'' @ [digit_char (k div 10 mod 10), digit_char (k mod 10)]"
proof -
  have n: "nat \<lfloor>q * 10 ^ 2 + 1 / 2\<rfloor> = k" using assms by simp
  show ?thesis
  proof (cases "length (digits10 k) \<le> 2")
    case True
    show ?thesis
      unfolding fixed_digits_def using True digits10_short [OF True]
      by (simp only: n Let_def) simp
  next
    case False
    show ?thesis
      unfolding fixed_digits_def using False digits10_long [OF False]
      by (simp only: n Let_def) simp
  qed
qed

subsection \<open>Rounding to a double\<close>

lemma bitlen_bounds:
  "0 < n \<Longrightarrow> 1 \<le> bitlen n \<and> 2 ^ nat (bitlen n - 1) \<le> n \<and> n < 2 ^ nat (bitlen n)"
proof (induction n rule: bitlen.induct)
  case (1 n)
  show ?case
  proof (cases "n = 1")
    case True
    then show ?thesis by (simp add: bitlen.simps [of 1] bitlen.simps [of 0])
  next
    case False
    with "1.prems" have h: "0 < n div 2" by simp
    from "1.IH" [OF _ h] "1.prems"
    have ih: "1 \<le> bitlen (n div 2)" "2 ^ nat (bitlen (n div 2) - 1) \<le> n div 2"
      "n div 2 < 2 ^ nat (bitlen (n div 2))"
      by simp_all
    have b: "bitlen n = 1 + bitlen (n div 2)"
      using "1.prems" by (subst bitlen.simps) simp
    have e: "nat (bitlen n - 1) = Suc (nat (bitlen (n div 2) - 1))" "nat (bitlen n) = Suc (nat (bitlen (n div 2)))"
      using ih(1) b by simp_all
    have "2 * 2 ^ nat (bitlen (n div 2) - 1) \<le> n" using ih(2) by linarith
    moreover have "n < 2 * 2 ^ nat (bitlen (n div 2))" using ih(3) by linarith
    ultimately have "2 ^ nat (bitlen n - 1) \<le> n" "n < 2 ^ nat (bitlen n)"
      by (simp_all only: e power_Suc)
    moreover have "1 \<le> bitlen n" using b ih(1) by linarith
    ultimately show ?thesis by blast
  qed
qed

lemma bitlen_powi:
  assumes "0 < n"
  shows "2 powi (bitlen n - 1) \<le> (of_int n :: rat)" and "(of_int n :: rat) < 2 powi (bitlen n)"
proof -
  from bitlen_bounds [OF assms]
  have b: "1 \<le> bitlen n" "2 ^ nat (bitlen n - 1) \<le> n" "n < 2 ^ nat (bitlen n)" by simp_all
  have "(of_int (2 ^ nat (bitlen n - 1)) :: rat) \<le> of_int n" using b(2) by (simp only: of_int_le_iff)
  then show "2 powi (bitlen n - 1) \<le> (of_int n :: rat)"
    using b(1) by (simp add: power_int_def)
  have "(of_int n :: rat) < of_int (2 ^ nat (bitlen n))" using b(3) by (simp only: of_int_less_iff)
  then show "(of_int n :: rat) < 2 powi (bitlen n)"
    using b(1) by (simp add: power_int_def)
qed

lemma floor_log2_bounds:
  assumes "0 < x"
  shows "2 powi (floor_log2 x) \<le> x" and "x < 2 powi (floor_log2 x + 1)"
proof -
  obtain p q where pq: "quotient_of x = (p, q)" by (cases "quotient_of x")
  then have q: "0 < q" and x: "x = of_int p / of_int q"
    using quotient_of_denom_pos quotient_of_div by blast+
  have p: "0 < p" using assms q x by (simp add: zero_less_divide_iff)
  define e where "e = bitlen p - bitlen q"
  have fl: "floor_log2 x = (if 2 powi e \<le> x then e else e - 1)"
    by (simp add: floor_log2_def pq e_def Let_def)
  have qpos: "(0::rat) < of_int q" using q by simp
  have lo: "2 powi (e - 1) \<le> x"
  proof -
    have "2 powi (e - 1) * (of_int q :: rat) \<le> 2 powi (e - 1) * 2 powi (bitlen q)"
      using bitlen_powi(2) [OF q] by (intro mult_left_mono) (simp_all add: less_imp_le)
    also have "\<dots> = 2 powi (bitlen p - 1)"
      by (simp add: e_def flip: power_int_add)
    also have "\<dots> \<le> of_int p" by (rule bitlen_powi(1) [OF p])
    finally show ?thesis using qpos by (simp add: x pos_le_divide_eq)
  qed
  have hi: "x < 2 powi (e + 1)"
  proof -
    have "(of_int p :: rat) < 2 powi (bitlen p)" by (rule bitlen_powi(2) [OF p])
    also have "\<dots> = 2 powi (e + 1) * 2 powi (bitlen q - 1)"
      by (simp add: e_def flip: power_int_add)
    also have "\<dots> \<le> 2 powi (e + 1) * of_int q"
      using bitlen_powi(1) [OF q] by (intro mult_left_mono) simp_all
    finally show ?thesis using qpos by (simp add: x pos_divide_less_eq)
  qed
  show "2 powi (floor_log2 x) \<le> x" using lo by (simp add: fl)
  show "x < 2 powi (floor_log2 x + 1)" using hi by (auto simp: fl)
qed

lemma floor_log2_unique:
  assumes "2 powi e \<le> x" and "x < 2 powi (e + 1)"
  shows "floor_log2 x = e"
proof -
  have x: "0 < x" using assms(1) zero_less_power_int [of "2::rat" e] by linarith
  note b = floor_log2_bounds [OF x]
  have "\<not> floor_log2 x < e"
  proof
    assume "floor_log2 x < e"
    then have "(2::rat) powi (floor_log2 x + 1) \<le> 2 powi e"
      by (intro power_int_increasing) simp_all
    with b(2) assms(1) show False by linarith
  qed
  moreover have "\<not> e < floor_log2 x"
  proof
    assume "e < floor_log2 x"
    then have "(2::rat) powi (e + 1) \<le> 2 powi (floor_log2 x)"
      by (intro power_int_increasing) simp_all
    with b(1) assms(2) show False by linarith
  qed
  ultimately show ?thesis by linarith
qed

lemma round_even_error: "\<bar>of_int (round_even y) - y\<bar> \<le> 1 / 2"
proof -
  have "of_int \<lfloor>y\<rfloor> \<le> y" "y < of_int \<lfloor>y\<rfloor> + 1" by linarith+
  then show ?thesis
    by (auto simp: round_even_def Let_def abs_le_iff)
qed

lemma fl_normal:
  assumes "2 powi e \<le> x" and "x < 2 powi (e + 1)" and "- 1022 \<le> e" and "e < 1023"
  shows "fl x = Fin (of_int (round_even (x / 2 powi (e - 52))) * 2 powi (e - 52))"
    and "\<bar>of_int (round_even (x / 2 powi (e - 52))) * 2 powi (e - 52) - x\<bar> \<le> x / 2 ^ 53"
proof -
  have x: "0 < x" using assms(1) zero_less_power_int [of "2::rat" e] by linarith
  let ?q = "(2::rat) powi (e - 52)"
  let ?r = "of_int (round_even (x / ?q)) * ?q"
  have q: "0 < ?q" by simp
  have e: "floor_log2 x = e" by (rule floor_log2_unique [OF assms(1,2)])
  have "\<bar>of_int (round_even (x / ?q)) - x / ?q\<bar> * ?q \<le> 1 / 2 * ?q"
    using round_even_error [of "x / ?q"] q by (intro mult_right_mono) simp_all
  moreover have "\<bar>of_int (round_even (x / ?q)) - x / ?q\<bar> * ?q = \<bar>?r - x\<bar>"
  proof -
    have "\<bar>of_int (round_even (x / ?q)) - x / ?q\<bar> * ?q
        = \<bar>(of_int (round_even (x / ?q)) - x / ?q) * ?q\<bar>"
      using q by (simp only: abs_mult abs_of_pos)
    also have "(of_int (round_even (x / ?q)) - x / ?q) * ?q = ?r - x"
      using q by (simp add: left_diff_distrib)
    finally show ?thesis .
  qed
  ultimately have err: "\<bar>?r - x\<bar> \<le> ?q / 2" by simp
  have q2: "?q / 2 = 2 powi e / 2 ^ 53"
    using power_int_diff [of "2::rat" e 53] power_int_diff [of "2::rat" e 52] by simp
  have "2 powi e / 2 ^ 53 \<le> x / 2 ^ 53"
    using assms(1) by (simp add: divide_right_mono)
  with err q2 show err': "\<bar>?r - x\<bar> \<le> x / 2 ^ 53" by linarith
  have "x / 2 ^ 53 \<le> x" using x by (simp add: field_simps)
  with err' have "?r \<le> 2 * x" by linarith
  also have "\<dots> < 2 * 2 powi (e + 1)" using assms(2) by simp
  also have "\<dots> = 2 powi (e + 2)"
    using power_int_add [of "2::rat" "e + 1" 1] by (simp add: algebra_simps)
  also have "\<dots> \<le> 2 powi 1024"
    using assms(4) by (intro power_int_increasing) simp_all
  finally have "\<not> 2 powi 1024 \<le> ?r" by simp
  moreover have "?r \<noteq> 0"
  proof -
    have "0 < x - x / 2 ^ 53" using x by (simp add: field_simps)
    with err' show ?thesis by linarith
  qed
  moreover have "max e (- 1022) = e" using assms(3) by simp
  moreover have "\<bar>x\<bar> = x" "x \<noteq> 0" using x by simp_all
  ultimately show "fl x = Fin ?r"
    using x by (simp add: fl_def Let_def e del: power_int_numeral power_int_minus)
qed

lemma fl_error:
  assumes "2 powi (- 1022) \<le> x" and "x < 2 powi 1023"
  shows "\<exists>y. fl x = Fin y \<and> \<bar>y - x\<bar> \<le> x / 2 ^ 53"
proof -
  have x: "0 < x" using assms(1) zero_less_power_int [of "2::rat" "- 1022"] by linarith
  note b = floor_log2_bounds [OF x]
  have lo: "- 1022 \<le> floor_log2 x"
  proof (rule ccontr)
    assume "\<not> - 1022 \<le> floor_log2 x"
    then have "(2::rat) powi (floor_log2 x + 1) \<le> 2 powi (- 1022)"
      by (intro power_int_increasing) simp_all
    with b(2) assms(1) show False by linarith
  qed
  have hi: "floor_log2 x < 1023"
  proof (rule ccontr)
    assume "\<not> floor_log2 x < 1023"
    then have "(2::rat) powi 1023 \<le> 2 powi (floor_log2 x)"
      by (intro power_int_increasing) simp_all
    with b(1) assms(2) show False by linarith
  qed
  from fl_normal [OF b lo hi] show ?thesis by blast
qed

lemma floor_numeral_div_rat [simp]: "\<lfloor>numeral a / numeral b :: rat\<rfloor> = numeral a div numeral b"
  by (metis floor_divide_of_int_eq of_int_numeral)

lemma fl_0: "fl 0 = Fin 0"
  by (simp add: fl_def)

lemma fl_100: "fl 100 = Fin 100"
  using fl_normal(1) [of 6 100] by (simp add: round_even_def Let_def)

lemma times_Fin: "a \<noteq> 0 \<Longrightarrow> b \<noteq> 0 \<Longrightarrow> Fin a * Fin b = fl (a * b)"
  by (simp add: times_double_def double_times_def is_zero_def is_inf_def)

lemma divide_Fin_100: "0 \<le> x \<Longrightarrow> Fin x / Fin 100 = fl (x / 100)"
  by (simp add: divide_double_def double_divide_def is_zero_def is_inf_def signed_zero_def fl_0)

lemma mathRound_nonneg:
  assumes "0 \<le> y"
  shows "mathRound_double (Fin y) = Fin (of_int \<lfloor>y + 1 / 2\<rfloor>)"
proof (cases "of_int \<lfloor>y\<rfloor> = y")
  case True
  have f: "\<lfloor>y + 1 / 2\<rfloor> = \<lfloor>y\<rfloor>"
    by (rule floor_unique) (use True in linarith)+
  have m: "mathRound_double (Fin y) = Fin y"
    unfolding mathRound_double_def by (simp only: double.case True refl if_True)
  have e: "y = of_int \<lfloor>y + 1 / 2\<rfloor>"
    unfolding f by (rule True [symmetric])
  from m arg_cong [where f = Fin, OF e] show ?thesis by (rule trans)
next
  case False
  then show ?thesis using assms by (simp add: mathRound_double_def Let_def)
qed

lemma fl_rel:
  assumes "1 / 10 ^ 300 \<le> x" and "x \<le> 10 ^ 300"
  obtains y where "fl x = Fin y" and "x * (1 - 1 / 2 ^ 53) \<le> y" and "y \<le> x * (1 + 1 / 2 ^ 53)"
proof -
  have "(2::rat) powi (- 1022) \<le> 1 / 10 ^ 300" by (simp add: power_int_minus)
  then have lo: "2 powi (- 1022) \<le> x" using assms(1) by (rule order_trans)
  have "(10::rat) ^ 300 < 2 powi 1023" by simp
  with assms(2) have hi: "x < 2 powi 1023" by (rule le_less_trans)
  from fl_error [OF lo hi] obtain y where y: "fl x = Fin y" "\<bar>y - x\<bar> \<le> x / 2 ^ 53" by blast
  have eq: "x * (1 - 1 / 2 ^ 53) = x - x / 2 ^ 53" "x * (1 + 1 / 2 ^ 53) = x + x / 2 ^ 53"
    by (simp_all add: algebra_simps)
  have "x - x / 2 ^ 53 \<le> y" "y \<le> x + x / 2 ^ 53"
    using y(2) by linarith+
  then have "x * (1 - 1 / 2 ^ 53) \<le> y" "y \<le> x * (1 + 1 / 2 ^ 53)"
    by (simp_all only: eq)
  with y(1) show thesis by (rule that)
qed

lemma rel_step:
  fixes A m u y z :: rat
  assumes "A * (1 - u) ^ k \<le> y" and "y \<le> A * (1 + u) ^ k"
    and "0 \<le> m" and "0 \<le> u" and "u \<le> 1"
    and "y * m * (1 - u) \<le> z" and "z \<le> y * m * (1 + u)"
  shows "A * m * (1 - u) ^ Suc k \<le> z" and "z \<le> A * m * (1 + u) ^ Suc k"
proof -
  have "A * (1 - u) ^ k * (m * (1 - u)) \<le> y * (m * (1 - u))"
    using assms(1,3,5) by (intro mult_right_mono) simp_all
  also have "\<dots> \<le> z" using assms(6) by (simp add: mult.assoc)
  finally show "A * m * (1 - u) ^ Suc k \<le> z" by (simp add: mult_ac)
  have "z \<le> y * (m * (1 + u))" using assms(7) by (simp add: mult.assoc)
  also have "\<dots> \<le> A * (1 + u) ^ k * (m * (1 + u))"
    using assms(2,3,4) by (intro mult_right_mono) simp_all
  finally show "z \<le> A * m * (1 + u) ^ Suc k" by (simp add: mult_ac)
qed

lemma product_error:
  assumes b: "1 / 10 ^ 90 \<le> b" "b \<le> 10 ^ 90"
    and m1: "1 / 10 ^ 90 \<le> m1" "m1 \<le> 10 ^ 90"
    and m2: "1 / 10 ^ 90 \<le> m2" "m2 \<le> 10 ^ 90"
  shows "\<exists>y. Fin b * Fin m1 * Fin m2 * Fin 100 = Fin y \<and>
           \<bar>y - b * m1 * m2 * 100\<bar> \<le> b * m1 * m2 * 100 / 2 ^ 51"
proof -
  define u :: rat where "u = 1 / 2 ^ 53"
  have u: "0 \<le> u" "u \<le> 1" by (simp_all add: u_def)
  have pos: "0 < b" "0 < m1" "0 < m2"
    using b(1) m1(1) m2(1) by (simp_all add: less_le_trans [of 0 "1 / 10 ^ 90"])
  have p1: "1 / 10 ^ 180 \<le> b * m1" "b * m1 \<le> 10 ^ 180"
    using mult_mono [of "1 / 10 ^ 90" b "1 / 10 ^ 90" m1] mult_mono [of b "10 ^ 90" m1 "10 ^ 90"]
      b m1 pos by simp_all
  then have "1 / 10 ^ 300 \<le> b * m1" "b * m1 \<le> 10 ^ 300" by simp_all
  then obtain y1 where y1: "fl (b * m1) = Fin y1"
      "b * m1 * (1 - u) \<le> y1" "y1 \<le> b * m1 * (1 + u)"
    unfolding u_def by (rule fl_rel)
  have e1: "Fin b * Fin m1 = Fin y1"
    using pos y1(1) by (simp add: times_Fin)
  have q1: "1 / 10 ^ 181 \<le> y1" "y1 \<le> 10 ^ 181"
    using p1 y1(2,3) by (simp_all add: u_def algebra_simps)
  then have y1pos: "0 < y1" by (simp add: less_le_trans [of 0 "1 / 10 ^ 181"])
  have p2: "1 / 10 ^ 271 \<le> y1 * m2" "y1 * m2 \<le> 10 ^ 271"
    using mult_mono [of "1 / 10 ^ 181" y1 "1 / 10 ^ 90" m2] mult_mono [of y1 "10 ^ 181" m2 "10 ^ 90"]
      q1 m2 pos y1pos by simp_all
  then have "1 / 10 ^ 300 \<le> y1 * m2" "y1 * m2 \<le> 10 ^ 300" by simp_all
  then obtain y2 where y2: "fl (y1 * m2) = Fin y2"
      "y1 * m2 * (1 - u) \<le> y2" "y2 \<le> y1 * m2 * (1 + u)"
    unfolding u_def by (rule fl_rel)
  have e2: "Fin y1 * Fin m2 = Fin y2"
    using pos y1pos y2(1) by (simp add: times_Fin)
  have q2: "1 / 10 ^ 272 \<le> y2" "y2 \<le> 10 ^ 272"
    using p2 y2(2,3) by (simp_all add: u_def algebra_simps)
  then have y2pos: "0 < y2" by (simp add: less_le_trans [of 0 "1 / 10 ^ 272"])
  have "1 / 10 ^ 300 \<le> y2 * 100" "y2 * 100 \<le> 10 ^ 300"
    using q2 by simp_all
  then obtain y3 where y3: "fl (y2 * 100) = Fin y3"
      "y2 * 100 * (1 - u) \<le> y3" "y3 \<le> y2 * 100 * (1 + u)"
    unfolding u_def by (rule fl_rel)
  have e3: "Fin y2 * Fin 100 = Fin y3"
    using y2pos y3(1) by (simp add: times_Fin)
  have s0: "b * (1 - u) ^ 0 \<le> b" "b \<le> b * (1 + u) ^ 0" by simp_all
  note s1 = rel_step [OF s0 less_imp_le [OF pos(2)] u y1(2,3)]
  note s2 = rel_step [OF s1 less_imp_le [OF pos(3)] u y2(2,3)]
  have h: "(0::rat) \<le> 100" by simp
  note s3 = rel_step [OF s2 h u y3(2,3)]
  let ?X = "b * m1 * m2 * 100"
  have X: "0 \<le> ?X" using pos by simp
  have up: "(1 + u) ^ 3 \<le> 1 + 1 / 2 ^ 51" and lo: "1 - 1 / 2 ^ 51 \<le> (1 - u) ^ 3"
    by (simp_all add: u_def power3_eq_cube)
  have "y3 \<le> ?X * (1 + u) ^ 3" using s3(2) by (simp add: numeral_3_eq_3)
  also have "\<dots> \<le> ?X * (1 + 1 / 2 ^ 51)" using up X by (rule mult_left_mono)
  also have "\<dots> = ?X + ?X / 2 ^ 51" by (simp add: algebra_simps)
  finally have A: "y3 \<le> ?X + ?X / 2 ^ 51" .
  have "?X - ?X / 2 ^ 51 = ?X * (1 - 1 / 2 ^ 51)" by (simp add: algebra_simps)
  also have "\<dots> \<le> ?X * (1 - u) ^ 3" using lo X by (rule mult_left_mono)
  also have "\<dots> \<le> y3" using s3(1) by (simp add: numeral_3_eq_3)
  finally have B: "?X - ?X / 2 ^ 51 \<le> y3" .
  from A B have "\<bar>y3 - ?X\<bar> \<le> ?X / 2 ^ 51" by linarith
  moreover have "Fin b * Fin m1 * Fin m2 * Fin 100 = Fin y3"
    by (simp only: e1 e2 e3)
  ultimately show ?thesis by blast
qed

lemma fl_cents:
  assumes "n < 2 ^ 52"
  shows "\<exists>q. fl (of_nat n / 100) = Fin q \<and> \<bar>q - of_nat n / 100\<bar> \<le> of_nat n / 100 / 2 ^ 53"
proof (cases "n = 0")
  case True
  then show ?thesis by (simp add: fl_0)
next
  case False
  then have "(1::rat) \<le> of_nat n" by simp
  then have "(2::rat) powi (- 1022) \<le> of_nat n / 100"
    by (simp add: power_int_minus field_simps)
  moreover have "(of_nat n :: rat) < of_nat (2 ^ 52)" using assms by (simp only: of_nat_less_iff)
  then have "(of_nat n / 100 :: rat) < 2 powi 1023" by simp
  ultimately show ?thesis by (rule fl_error)
qed

lemma toFixed_cents:
  assumes "\<bar>q - of_nat n / 100\<bar> \<le> of_nat n / 100 / 2 ^ 53" and "n < 2 ^ 52"
  shows "toFixed_double (Fin q) 2 =
     digits10 (n div 100) @ ''.'' @ [digit_char (n div 10 mod 10), digit_char (n mod 10)]"
proof -
  have n: "(of_nat n :: rat) < 2 ^ 52" "(0::rat) \<le> of_nat n"
    using assms(2) of_nat_less_iff [of n "2 ^ 52", where ?'a = rat] by simp_all
  define s :: rat where "s = of_nat n / 100"
  define t :: rat where "t = s / 2 ^ 53"
  have s: "0 \<le> s" "s * 100 = of_nat n" "s < 2 ^ 52 / 100"
    using n by (simp_all add: s_def)
  have t: "0 \<le> t" "t \<le> s" "t * 100 < 1 / 2"
    using s by (simp_all add: t_def field_simps)
  have a: "s - t \<le> q" "q \<le> s + t"
    using assms(1) unfolding s_def [symmetric] t_def [symmetric] by linarith+
  have q0: "0 \<le> q" using a t by linarith
  have "(2::rat) ^ 52 / 100 * 2 < 10 ^ 21" by simp
  then have q1: "q < 10 ^ 21" using a t s by linarith
  have "of_nat n \<le> q * 100 + 1 / 2" "q * 100 + 1 / 2 < of_nat n + 1"
    using a t s by linarith+
  then have "\<lfloor>q * 100 + 1 / 2\<rfloor> = int n"
    by (simp add: floor_eq_iff)
  then have "nat \<lfloor>q * 100 + 1 / 2\<rfloor> = n" by simp
  from fixed_digits_cents [OF this] show ?thesis
    using q0 q1 by (simp add: toFixed_double_def)
qed

lemma computePrice_double:
  assumes "obj_get (assetTypes cfg) a = Some atd"
    and "obj_get (channels cfg) c = Some ch"
    and "find (\<lambda>d. path d = dp) (durations cfg) = Some dur"
    and "basePriceDollars dur * at_multiplier atd * ch_multiplier ch * Fin 100 = Fin y"
    and "0 \<le> y" and "y < 2 ^ 51 + 1"
  shows "\<exists>n q. int n = \<lfloor>y + 1 / 2\<rfloor> \<and>
      fl (of_nat n / 100) = Fin q \<and> \<bar>q - of_nat n / 100\<bar> \<le> of_nat n / 100 / 2 ^ 53 \<and>
      computePrice double_number cfg a c dp =
        Some \<lparr>dollars = Fin q,
              formatted = ''$'' @ digits10 (n div 100) @ ''.'' @
                          [digit_char (n div 10 mod 10), digit_char (n mod 10)]\<rparr>"
proof -
  define n where "n = nat \<lfloor>y + 1 / 2\<rfloor>"
  have "0 \<le> \<lfloor>y + 1 / 2\<rfloor>" using assms(5) by simp
  then have n: "int n = \<lfloor>y + 1 / 2\<rfloor>" by (simp add: n_def)
  have "\<lfloor>y + 1 / 2\<rfloor> < 2 ^ 52" using assms(6) by (simp add: floor_less_iff)
  then have "int n < 2 ^ 52" using n by simp
  then have n52: "n < 2 ^ 52" by simp
  from fl_cents [OF n52] obtain q where
    q: "fl (of_nat n / 100) = Fin q" "\<bar>q - of_nat n / 100\<bar> \<le> of_nat n / 100 / 2 ^ 53"
    by blast
  have r: "mathRound_double (Fin y) = Fin (of_nat n)"
    using mathRound_nonneg [OF assms(5)] n by (metis of_int_of_nat_eq)
  have d: "Fin (of_nat n) / Fin 100 = Fin q"
    using divide_Fin_100 [of "of_nat n"] q(1) by simp
  have "computePrice double_number cfg a c dp =
        Some \<lparr>dollars = Fin q, formatted = ''$'' @ toFixed_double (Fin q) 2\<rparr>"
    using assms(1-4) r d by (simp add: computePrice_def double_number_def Let_def fl_100)
  then show ?thesis
    using n q toFixed_cents [OF q(2) n52] by auto
qed

lemma fl_51: "fl (51 / 100) = Fin (2296835809958953 / 4503599627370496)"
  using fl_normal(1) [of "- 1" "51 / 100"] by (simp add: round_even_def Let_def power_int_minus)

lemma fl_1: "fl 1 = Fin 1"
  using fl_normal(1) [of 0 1] by (simp add: round_even_def Let_def power_int_minus)

lemma fl_5_2: "fl (5 / 2) = Fin (5 / 2)"
  using fl_normal(1) [of 1 "5 / 2"] by (simp add: round_even_def Let_def power_int_minus)

lemma half_cent_product:
  "Fin (2296835809958953 / 4503599627370496) * Fin 1 * Fin (5 / 2) * Fin 100 =
   Fin (8972014882652159 / 70368744177664)"
proof -
  have a: "Fin (2296835809958953 / 4503599627370496) * Fin 1 = Fin (2296835809958953 / 4503599627370496)"
    using fl_normal(1) [of "- 1" "2296835809958953 / 4503599627370496"]
    by (simp add: times_Fin round_even_def Let_def power_int_minus)
  have b: "Fin (2296835809958953 / 4503599627370496) * Fin (5 / 2) = Fin (2871044762448691 / 2251799813685248)"
    using fl_normal(1) [of 0 "2296835809958953 / 4503599627370496 * (5 / 2)"]
    by (simp add: times_Fin round_even_def Let_def power_int_minus)
  have c: "Fin (2871044762448691 / 2251799813685248) * Fin 100 = Fin (8972014882652159 / 70368744177664)"
    using fl_normal(1) [of 6 "2871044762448691 / 2251799813685248 * 100"]
    by (simp add: times_Fin round_even_def Let_def power_int_minus)
  show ?thesis by (simp only: a b c)
qed

lemma half_cent_price:
  "computePrice double_number half_cent_cfg ''crypto'' ''realtime'' ''1h'' =
     Some \<lparr>dollars = Fin (2859785763380265 / 2251799813685248), formatted = ''$1.27''\<rparr>"
proof -
  have r: "mathRound_double (Fin (8972014882652159 / 70368744177664)) = Fin 127"
    by (simp add: mathRound_double_def Let_def)
  have d: "Fin 127 / Fin 100 = Fin (2859785763380265 / 2251799813685248)"
    using fl_normal(1) [of 0 "127 / 100"] divide_Fin_100 [of 127]
    by (simp add: round_even_def Let_def power_int_minus)
  have "nat \<lfloor>2859785763380265 / 2251799813685248 * 100 + 1 / 2 :: rat\<rfloor> = 127"
    by simp
  from fixed_digits_cents [OF this]
  have f: "toFixed_double (Fin (2859785763380265 / 2251799813685248)) 2 = ''1.27''"
    by (simp add: toFixed_double_def digits10_lt10 digits10_ge10 digit_char_def)
  show ?thesis
    by (simp add: computePrice_def half_cent_cfg_def obj_get_def double_number_def Let_def
        fl_51 fl_1 fl_5_2 fl_100 half_cent_product r d f)
qed

lemma example_product: "Fin 5 * Fin 1 * Fin 2 * Fin 100 = Fin 1000"
proof -
  have a: "Fin 5 * Fin 1 = Fin 5"
    using fl_normal(1) [of 2 5] by (simp add: times_Fin round_even_def Let_def power_int_minus)
  have b: "Fin 5 * Fin 2 = Fin 10"
    using fl_normal(1) [of 3 10] by (simp add: times_Fin round_even_def Let_def power_int_minus)
  have c: "Fin 10 * Fin 100 = Fin 1000"
    using fl_normal(1) [of 9 1000] by (simp add: times_Fin round_even_def Let_def power_int_minus)
  show ?thesis by (simp only: a b c)
qed

lemma fl_10: "fl 10 = Fin 10"
  using fl_normal(1) [of 3 10] by (simp add: round_even_def Let_def power_int_minus)

lemma fl_127: "fl (127 / 100) = Fin (2859785763380265 / 2251799813685248)"
  using fl_normal(1) [of 0 "127 / 100"] by (simp add: round_even_def Let_def power_int_minus)

lemma fl_3: "fl 3 = Fin 3"
  using fl_normal(1) [of 1 3] by (simp add: round_even_def Let_def power_int_minus)

lemma fl_large:
  "fl 1000000000000000000000 = Fin 1000000000000000000000"
  "fl 3000000000000000000000 = Fin 3000000000000000000000"
  "fl 4000000000000000000000 = Fin 4000000000000000000000"
  "fl 10000000000000000000000 = Fin 10000000000000000000000"
  "fl 300000000000000000000000 = Fin 300000000000000008388608"
  "fl (75000000000000002097152 / 25) = Fin 3000000000000000000000"
  using fl_normal(1) [of 69 "10 ^ 21"] fl_normal(1) [of 71 "3 * 10 ^ 21"]
    fl_normal(1) [of 71 "4 * 10 ^ 21"] fl_normal(1) [of 73 "10 ^ 22"]
    fl_normal(1) [of 77 "3 * 10 ^ 23"] fl_normal(1) [of 71 "300000000000000008388608 / 100"]
  by (simp_all add: round_even_def Let_def power_int_minus)

lemma large_digits: "digits10 3000000000000000000000 = ''3000000000000000000000''"
  by (simp add: digits10_ge10 digits10_lt10 digit_char_def)

lemma large_exponential: "exponential 3000000000000000000000 = ''3e+21''"
proof -
  have c: "decimal_candidates 3000000000000000000000 1 = [(3, 22)]"
    by (simp add: decimal_candidates_def large_digits Let_def fl_large)
  have c': "decimal_candidates 3000000000000000000000 (Suc 0) = [(3, 22)]"
    using c by simp
  have u: "[1..<18] = 1 # [Suc 1..<18]"
    by (rule upt_conv_Cons) simp
  have "find (\<lambda>k. decimal_candidates 3000000000000000000000 k \<noteq> []) [1..<18] = Some 1"
    by (subst u) (simp only: find.simps c, simp)
  then have "shortest_decimal 3000000000000000000000 = (3, 22)"
    by (simp add: shortest_decimal_def c')
  then show ?thesis
    by (simp add: exponential_def digits10_lt10 digits10_ge10 digit_char_def)
qed

lemma large_price:
  "computePrice double_number large_cfg ''crypto'' ''fixed'' ''1h'' =
     Some \<lparr>dollars = Fin 3000000000000000000000, formatted = ''$3e+21''\<rparr>"
proof -
  have p: "Fin 1000000000000000000000 * Fin 3 * Fin 1 * Fin 100 = Fin 300000000000000008388608"
    by (simp add: times_Fin fl_large)
  have r: "mathRound_double (Fin 300000000000000008388608) = Fin 300000000000000008388608"
    by (simp add: mathRound_double_def)
  have d: "Fin 300000000000000008388608 / Fin 100 = Fin 3000000000000000000000"
    using divide_Fin_100 [of 300000000000000008388608] by (simp add: fl_large)
  have f: "toFixed_double (Fin 3000000000000000000000) 2 = ''3e+21''"
    by (simp add: toFixed_double_def large_exponential)
  show ?thesis
    by (simp add: computePrice_def large_cfg_def obj_get_def double_number_def Let_def
        fl_large fl_3 fl_1 fl_100 p r d f)
qed

text \<open>
  Claim C2, as the code has it. Take an asset type key, a channel key and a duration path
  that are present in the pricing snapshot, with a base price \<open>b\<close> and multipliers \<open>m1\<close>
  and \<open>m2\<close> that are finite doubles between \<open>10 ^ -90\<close> and \<open>10 ^ 90\<close> and whose exact
  product is below \<open>2 ^ 51\<close> cents. \<open>computePrice\<close> multiplies in double arithmetic: the
  product in cents that it rounds is a double \<open>y\<close> within a relative \<open>2 ^ -51\<close> of the
  exact product in cents. The result is the number \<open>n\<close> of cents nearest to \<open>y\<close>, the larger
  one on a tie, and \<open>n\<close> is the exact product rounded to cents whenever the exact product
  is further than that error from the middle between two cents. The price is returned
  as the double nearest to \<open>n / 100\<close> and formatted as a dollar sign, the dollars, a point
  and two digits. In particular a base price of 5 with the multipliers 1 and 2 gives 10,
  formatted \<open>$10.00\<close>.
\<close>

theorem computePrice_rounds_to_cents:
  assumes "obj_get (assetTypes cfg) a = Some atd"
    and "obj_get (channels cfg) c = Some ch"
    and "find (\<lambda>d. path d = dp) (durations cfg) = Some dur"
    and "basePriceDollars dur = Fin b" and "at_multiplier atd = Fin m1" and "ch_multiplier ch = Fin m2"
    and "1 / 10 ^ 90 \<le> b" and "b \<le> 10 ^ 90"
    and "1 / 10 ^ 90 \<le> m1" and "m1 \<le> 10 ^ 90"
    and "1 / 10 ^ 90 \<le> m2" and "m2 \<le> 10 ^ 90"
    and "b * m1 * m2 * 100 < 2 ^ 51"
  shows "(\<exists>y n q.
      Fin b * Fin m1 * Fin m2 * Fin 100 = Fin y \<and>
      \<bar>y - b * m1 * m2 * 100\<bar> \<le> b * m1 * m2 * 100 / 2 ^ 51 \<and>
      int n = \<lfloor>y + 1 / 2\<rfloor> \<and>
      (b * m1 * m2 * 100 / 2 ^ 51 < b * m1 * m2 * 100 - (of_int \<lfloor>b * m1 * m2 * 100 + 1 / 2\<rfloor> - 1 / 2) \<and>
       b * m1 * m2 * 100 / 2 ^ 51 < of_int \<lfloor>b * m1 * m2 * 100 + 1 / 2\<rfloor> + 1 / 2 - b * m1 * m2 * 100 \<longrightarrow>
         int n = \<lfloor>b * m1 * m2 * 100 + 1 / 2\<rfloor>) \<and>
      fl (of_nat n / 100) = Fin q \<and> \<bar>q - of_nat n / 100\<bar> \<le> of_nat n / 100 / 2 ^ 53 \<and>
      computePrice double_number cfg a c dp =
        Some \<lparr>dollars = Fin q,
              formatted = ''$'' @ digits10 (n div 100) @ ''.'' @
                          [digit_char (n div 10 mod 10), digit_char (n mod 10)]\<rparr>) \<and>
    (b = 5 \<and> m1 = 1 \<and> m2 = 2 \<longrightarrow>
       computePrice double_number cfg a c dp = Some \<lparr>dollars = Fin 10, formatted = ''$10.00''\<rparr>)"
proof -
  let ?X = "b * m1 * m2 * 100"
  from product_error [OF assms(7-12)] obtain y where
    y: "Fin b * Fin m1 * Fin m2 * Fin 100 = Fin y" "\<bar>y - ?X\<bar> \<le> ?X / 2 ^ 51"
    by blast
  have X0: "0 \<le> ?X" using assms(7,9,11) by simp
  have D: "?X / 2 ^ 51 \<le> ?X" "?X / 2 ^ 51 < 1"
    using X0 assms(13) by (simp_all add: field_simps)
  have y0: "0 \<le> y" using y(2) D by linarith
  have y1: "y < 2 ^ 51 + 1" using y(2) D assms(13) by linarith
  have p: "basePriceDollars dur * at_multiplier atd * ch_multiplier ch * Fin 100 = Fin y"
    using y(1) by (simp only: assms(4-6))
  from computePrice_double [OF assms(1-3) p y0 y1] obtain n q where
    n: "int n = \<lfloor>y + 1 / 2\<rfloor>"
      "fl (of_nat n / 100) = Fin q" "\<bar>q - of_nat n / 100\<bar> \<le> of_nat n / 100 / 2 ^ 53"
      "computePrice double_number cfg a c dp =
        Some \<lparr>dollars = Fin q,
              formatted = ''$'' @ digits10 (n div 100) @ ''.'' @
                          [digit_char (n div 10 mod 10), digit_char (n mod 10)]\<rparr>"
    by blast
  have tie: "int n = \<lfloor>?X + 1 / 2\<rfloor>"
    if "?X / 2 ^ 51 < ?X - (of_int \<lfloor>?X + 1 / 2\<rfloor> - 1 / 2) \<and>
        ?X / 2 ^ 51 < of_int \<lfloor>?X + 1 / 2\<rfloor> + 1 / 2 - ?X"
  proof -
    have "of_int \<lfloor>?X + 1 / 2\<rfloor> \<le> y + 1 / 2" "y + 1 / 2 < of_int \<lfloor>?X + 1 / 2\<rfloor> + 1"
      using that y(2) by linarith+
    then have "\<lfloor>y + 1 / 2\<rfloor> = \<lfloor>?X + 1 / 2\<rfloor>" by (rule floor_unique)
    then show ?thesis using n(1) by simp
  qed
  have ex: "computePrice double_number cfg a c dp = Some \<lparr>dollars = Fin 10, formatted = ''$10.00''\<rparr>"
    if v: "b = 5 \<and> m1 = 1 \<and> m2 = 2"
  proof -
    have "Fin y = Fin 1000" using y(1) example_product by (simp add: v)
    then have "int n = 1000" using n(1) floor_half [of 1000] by simp
    then have n1000: "n = 1000" by simp
    have q: "q = 10" using n(2) fl_10 by (simp add: n1000)
    have "digits10 10 = ''10''"
      by (simp add: digits10_ge10 digits10_lt10 digit_char_def)
    then show ?thesis
      using n(4) by (simp add: n1000 q digit_char_def)
  qed
  from y n tie ex show ?thesis by blast
qed

theorem computePrice_rounds_to_cents_witness:
  "obj_get (assetTypes example_cfg) ''crypto'' = Some \<lparr>at_label = ''Crypto'', at_multiplier = Fin 1\<rparr> \<and>
   obj_get (channels example_cfg) ''fixed'' =
     Some \<lparr>ch_label = ''Fixed rate'', wsChannel = ''fixed_rate@200ms'', ch_multiplier = Fin 2\<rparr> \<and>
   find (\<lambda>d. path d = ''1h'') (durations example_cfg) =
     Some \<lparr>path = ''1h'', label = ''1 hour'', basePriceDollars = Fin 5\<rparr> \<and>
   (1 / 10 ^ 90 \<le> (1::rat) \<and> (5::rat) \<le> 10 ^ 90 \<and> (5::rat) * 1 * 2 * 100 < 2 ^ 51) \<and>
   computePrice double_number example_cfg ''crypto'' ''fixed'' ''1h'' =
     Some \<lparr>dollars = Fin 10, formatted = ''$10.00''\<rparr>"
proof -
  have a: "obj_get (assetTypes example_cfg) ''crypto'' = Some \<lparr>at_label = ''Crypto'', at_multiplier = Fin 1\<rparr>"
    by (simp add: obj_get_def example_cfg_def)
  have c: "obj_get (channels example_cfg) ''fixed'' =
     Some \<lparr>ch_label = ''Fixed rate'', wsChannel = ''fixed_rate@200ms'', ch_multiplier = Fin 2\<rparr>"
    by (simp add: obj_get_def example_cfg_def)
  have d: "find (\<lambda>d. path d = ''1h'') (durations example_cfg) =
     Some \<lparr>path = ''1h'', label = ''1 hour'', basePriceDollars = Fin 5\<rparr>"
    by (simp add: example_cfg_def)
  have r: "1 / 10 ^ 90 \<le> (1::rat) \<and> (5::rat) \<le> 10 ^ 90 \<and> (5::rat) * 1 * 2 * 100 < 2 ^ 51"
    by simp
  from computePrice_rounds_to_cents [OF a c d, of 5 1 2]
  have "computePrice double_number example_cfg ''crypto'' ''fixed'' ''1h'' =
     Some \<lparr>dollars = Fin 10, formatted = ''$10.00''\<rparr>"
    by simp
  with a c d r show ?thesis by blast
qed

text \<open>
  The claim C2 as the specification states it fails: the price returned is not always
  the product rounded to two decimal places. Take the base price 0.51, which the
  snapshot holds as the nearest double, and the multipliers 1 and 2.5. The product is
  above 1.275, whether the base price is read as the decimal or as the double, and
  rounds to 1.28. The double product in cents is below 127.5, and \<open>computePrice\<close> returns
  the double nearest to 1.27, formatted \<open>$1.27\<close>, which is further than half a cent from
  the product. And from \<open>10 ^ 21\<close> on the formatted price has no two decimal places: the
  base price \<open>10 ^ 21\<close> with the multipliers 3 and 1 is formatted \<open>$3e+21\<close>.
\<close>

theorem computePrice_rounds_to_cents_counterexample:
  "fl (51 / 100) = Fin (2296835809958953 / 4503599627370496) \<and>
   computePrice double_number half_cent_cfg ''crypto'' ''realtime'' ''1h'' =
     Some \<lparr>dollars = Fin (2859785763380265 / 2251799813685248), formatted = ''$1.27''\<rparr> \<and>
   fl (127 / 100) = Fin (2859785763380265 / 2251799813685248) \<and>
   \<lfloor>51 / 100 * 1 * (5 / 2) * 100 + 1 / 2 :: rat\<rfloor> = 128 \<and>
   \<lfloor>2296835809958953 / 4503599627370496 * 1 * (5 / 2) * 100 + 1 / 2 :: rat\<rfloor> = 128 \<and>
   1 / 200 < \<bar>2859785763380265 / 2251799813685248 - 2296835809958953 / 4503599627370496 * 1 * (5 / 2) :: rat\<bar> \<and>
   computePrice double_number large_cfg ''crypto'' ''fixed'' ''1h'' =
     Some \<lparr>dollars = Fin 3000000000000000000000, formatted = ''$3e+21''\<rparr>"
  using fl_51 fl_127 half_cent_price large_price by simp

subsection \<open>The route table\<close>

lemma concat_map_option:
  "concat (map (\<lambda>x. case f x of Some y \<Rightarrow> [g x y] | None \<Rightarrow> []) xs) =
   List.map_filter (\<lambda>x. map_option (g x) (f x)) xs"
  by (induction xs) (auto simp: List.map_filter_simps split: option.splits)

lemma map_filter_append:
  "List.map_filter f (xs @ ys) = List.map_filter f xs @ List.map_filter f ys"
  by (simp add: List.map_filter_def)

lemma map_filter_product:
  "List.map_filter f (List.product xs ys) =
   concat (map (\<lambda>x. List.map_filter (\<lambda>y. f (x, y)) ys) xs)"
proof (induction xs)
  case Nil
  then show ?case by (simp add: List.map_filter_simps)
next
  case (Cons a xs)
  have "List.map_filter f (map (Pair a) ys) = List.map_filter (\<lambda>y. f (a, y)) ys"
    by (induction ys) (simp_all add: List.map_filter_simps split: option.splits)
  with Cons show ?case by (simp add: map_filter_append)
qed

lemma length_map_filter_all:
  "\<forall>x \<in> set xs. f x \<noteq> None \<Longrightarrow> length (List.map_filter f xs) = length xs"
  by (induction xs) (auto simp: List.map_filter_simps split: option.splits)

lemma computePrice_Some_iff:
  "(\<exists>p. computePrice js cfg a c dp = Some p) \<longleftrightarrow>
   a \<in> set (obj_keys (assetTypes cfg)) \<and> c \<in> set (obj_keys (channels cfg)) \<and>
   dp \<in> path ` set (durations cfg)"
proof -
  have a: "(\<exists>v. obj_get (assetTypes cfg) a = Some v) \<longleftrightarrow> a \<in> set (obj_keys (assetTypes cfg))"
    using obj_get_None_keys [of "assetTypes cfg" a] by auto
  have c: "(\<exists>v. obj_get (channels cfg) c = Some v) \<longleftrightarrow> c \<in> set (obj_keys (channels cfg))"
    using obj_get_None_keys [of "channels cfg" c] by auto
  have d: "(\<exists>v. find (\<lambda>d. path d = dp) (durations cfg) = Some v) \<longleftrightarrow> dp \<in> path ` set (durations cfg)"
    by (cases "find (\<lambda>d. path d = dp) (durations cfg)") (auto simp: find_None_set dest: find_SomeD)
  show ?thesis
    unfolding a [symmetric] c [symmetric] d [symmetric]
    by (auto simp: computePrice_def Let_def split: option.splits)
qed

text \<open>
  Claim C9. \<open>getAllRouteConfigs\<close> returns, in order, one route for each triple of the
  Cartesian product of the configured asset type keys, channel keys and durations for
  which \<open>computePrice\<close> gives a price; every triple of the product has a price, so the
  table has as many routes as the product has triples; and each route carries the
  formatted price \<open>computePrice\<close> gives for it and the purchase path built from its triple.
\<close>

theorem getAllRouteConfigs_product:
  "getAllRouteConfigs js cfg =
     List.map_filter
       (\<lambda>(a, c, d). map_option (route_for a c d) (computePrice js cfg a c (path d)))
       (List.product (obj_keys (assetTypes cfg))
          (List.product (obj_keys (channels cfg)) (durations cfg))) \<and>
   (\<forall>(a, c, d) \<in> set (List.product (obj_keys (assetTypes cfg))
          (List.product (obj_keys (channels cfg)) (durations cfg))).
      \<exists>p. computePrice js cfg a c (path d) = Some p) \<and>
   length (getAllRouteConfigs js cfg) =
     length (obj_keys (assetTypes cfg)) * length (obj_keys (channels cfg)) * length (durations cfg) \<and>
   (\<forall>r \<in> set (getAllRouteConfigs js cfg).
      \<exists>p. computePrice js cfg (route_assetType r) (route_channel r) (route_duration r) = Some p \<and>
          price r = formatted p \<and>
          routePath r = ''/v1/purchase/'' @ route_assetType r @ ''/'' @ route_channel r @ ''/'' @ route_duration r)"
  (is "?A \<and> ?B \<and> ?C \<and> ?D")
proof -
  let ?f = "\<lambda>(a, c, d). map_option (route_for a c d) (computePrice js cfg a c (path d))"
  let ?T = "List.product (obj_keys (assetTypes cfg)) (List.product (obj_keys (channels cfg)) (durations cfg))"
  have A: ?A
    unfolding getAllRouteConfigs_def
    by (simp add: map_filter_product concat_map_option)
  have B: ?B
    using computePrice_Some_iff [of js cfg] by auto
  have "\<forall>t \<in> set ?T. ?f t \<noteq> None"
    using B by auto
  then have "length (List.map_filter ?f ?T) = length ?T"
    by (rule length_map_filter_all)
  then have C: ?C using A by simp
  have D: ?D
  proof
    fix r assume "r \<in> set (getAllRouteConfigs js cfg)"
    then obtain a c d p where "computePrice js cfg a c (path d) = Some p" "r = route_for a c d p"
      unfolding A by (auto simp: List.map_filter_def)
    then show "\<exists>p. computePrice js cfg (route_assetType r) (route_channel r) (route_duration r) = Some p \<and>
          price r = formatted p \<and>
          routePath r = ''/v1/purchase/'' @ route_assetType r @ ''/'' @ route_channel r @ ''/'' @ route_duration r"
      by (simp add: route_for_def)
  qed
  from A B C D show ?thesis by blast
qed

theorem getAllRouteConfigs_product_witness:
  "(''crypto'', ''fixed'', \<lparr>path = ''1h'', label = ''1 hour'', basePriceDollars = Fin 5\<rparr>)
     \<in> set (List.product (obj_keys (assetTypes example_cfg))
              (List.product (obj_keys (channels example_cfg)) (durations example_cfg))) \<and>
   (\<exists>p. computePrice double_number example_cfg ''crypto'' ''fixed'' ''1h'' = Some p) \<and>
   length (getAllRouteConfigs double_number example_cfg) = 8"
proof -
  note t = getAllRouteConfigs_product [of double_number example_cfg]
  have m: "(''crypto'', ''fixed'', \<lparr>path = ''1h'', label = ''1 hour'', basePriceDollars = Fin 5\<rparr>)
     \<in> set (List.product (obj_keys (assetTypes example_cfg))
              (List.product (obj_keys (channels example_cfg)) (durations example_cfg)))"
    by (simp add: example_cfg_def obj_keys_def)
  have "\<exists>p. computePrice double_number example_cfg ''crypto'' ''fixed''
          (path \<lparr>path = ''1h'', label = ''1 hour'', basePriceDollars = Fin 5\<rparr>) = Some p"
    using t m by blast
  then have p: "\<exists>p. computePrice double_number example_cfg ''crypto'' ''fixed'' ''1h'' = Some p"
    by simp
  have "length (getAllRouteConfigs double_number example_cfg) =
     length (obj_keys (assetTypes example_cfg)) * length (obj_keys (channels example_cfg)) *
     length (durations example_cfg)"
    using t by blast
  then have "length (getAllRouteConfigs double_number example_cfg) = 8"
    by (simp add: example_cfg_def obj_keys_def)
  with m p show ?thesis by blast
qed

subsection \<open>Loading and reloading\<close>

lemma parse_array_set:
  "parse_array f xs = Some ys \<Longrightarrow> y \<in> set ys \<Longrightarrow> \<exists>x. f x = Some y"
  by (induction xs arbitrary: ys) (auto split: option.splits)

lemma parse_record_set:
  "parse_record f xs = Some ys \<Longrightarrow> (k, y) \<in> set ys \<Longrightarrow> \<exists>x. f x = Some y"
  by (induction f xs arbitrary: ys rule: parse_record.induct) (auto split: option.splits)

lemma parse_duration_pos: "parse_duration j = Some d \<Longrightarrow> 0 < basePriceDollars d"
  by (auto simp: parse_duration_def split: json.splits option.splits if_splits)

lemma parse_assetType_pos: "parse_assetType j = Some a \<Longrightarrow> 0 < at_multiplier a"
  by (auto simp: parse_assetType_def split: json.splits option.splits if_splits)

lemma parse_channel_pos: "parse_channel j = Some c \<Longrightarrow> 0 < ch_multiplier c"
  by (auto simp: parse_channel_def split: json.splits option.splits if_splits)

lemma pricingSchema_parse_valid:
  assumes "pricingSchema_parse j = Some c"
  shows "valid_snapshot c"
proof -
  from assms obtain fs ds ats chs where
    d: "parse_array parse_duration ds = Some (durations c)" and
    a: "parse_record parse_assetType ats = Some (assetTypes c)" and
    ch: "parse_record parse_channel chs = Some (channels c)" and
    ne: "1 \<le> length (durations c)" "0 < length (obj_keys (assetTypes c))"
        "0 < length (obj_keys (channels c))"
    by (auto simp: pricingSchema_parse_def split: json.splits option.splits if_splits)
  have "list_all (\<lambda>d. 0 < basePriceDollars d) (durations c)"
    using parse_array_set [OF d] parse_duration_pos by (fastforce simp: list_all_iff)
  moreover have "list_all (\<lambda>(k, a). 0 < at_multiplier a) (assetTypes c)"
    using parse_record_set [OF a] parse_assetType_pos by (fastforce simp: list_all_iff)
  moreover have "list_all (\<lambda>(k, ch). 0 < ch_multiplier ch) (channels c)"
    using parse_record_set [OF ch] parse_channel_pos by (fastforce simp: list_all_iff)
  ultimately show ?thesis
    using ne by (auto simp: valid_snapshot_def obj_keys_def)
qed

lemma loadConfig_valid: "loadConfig raw = Some c \<Longrightarrow> valid_snapshot c"
  by (auto simp: loadConfig_def pricingSchema_parse_valid split: option.splits)

lemma watch_callback_valid:
  assumes "\<exists>c. current = Some c \<and> valid_snapshot c"
  shows "\<exists>c. watch_callback eventType raw current = Some c \<and> valid_snapshot c"
  using assms by (auto simp: watch_callback_def loadConfig_valid split: option.splits)

lemma watch_events_valid:
  "\<exists>c. current = Some c \<and> valid_snapshot c \<Longrightarrow>
   \<exists>c. watch_events events current = Some c \<and> valid_snapshot c"
proof (induction events arbitrary: current)
  case Nil
  then show ?case by simp
next
  case (Cons e es)
  obtain eventType raw where e: "e = (eventType, raw)" by (cases e)
  show ?case
    unfolding e watch_events.simps
    by (rule Cons.IH) (rule watch_callback_valid [OF Cons.prems])
qed

lemma example_doc_loads: "loadConfig (Some example_doc) = Some example_cfg"
  by (simp add: loadConfig_def pricingSchema_parse_def example_doc_def example_cfg_def
      parse_duration_def parse_assetType_def parse_channel_def obj_keys_def)

lemma broken_doc_fails: "loadConfig (Some broken_doc) = None"
  by (simp add: loadConfig_def pricingSchema_parse_def broken_doc_def
      parse_assetType_def obj_keys_def)

text \<open>
  Claim C5. When the config document fails to parse or to validate (\<open>loadConfig\<close> returns
  nothing), the initial load throws, so the service does not start; the same failure in
  the file watcher leaves the snapshot as it was. After an initial load that succeeded,
  whatever file events follow and whatever the file holds at each of them, the store
  holds a snapshot, and that snapshot satisfies the schema.
\<close>

theorem config_load_failure:
  "(loadConfig raw = None \<longrightarrow>
      initial_load raw = Inl startup_error) \<and>
   (loadConfig raw = None \<longrightarrow> watch_callback eventType raw current = current) \<and>
   (initial_load raw0 = Inr started \<longrightarrow>
      (\<exists>c. watch_events events started = Some c \<and> valid_snapshot c))"
proof (intro conjI impI)
  assume "loadConfig raw = None"
  then show "initial_load raw = Inl startup_error"
    by (simp add: initial_load_def)
next
  assume "loadConfig raw = None"
  then show "watch_callback eventType raw current = current"
    by (simp add: watch_callback_def)
next
  assume "initial_load raw0 = Inr started"
  then have "\<exists>c. started = Some c \<and> valid_snapshot c"
    by (auto simp: initial_load_def Let_def loadConfig_valid split: if_splits)
  then show "\<exists>c. watch_events events started = Some c \<and> valid_snapshot c"
    by (rule watch_events_valid)
qed

theorem config_load_failure_witness:
  "loadConfig (Some broken_doc) = None \<and>
   initial_load (Some broken_doc) = Inl startup_error \<and>
   watch_callback ''change'' (Some broken_doc) (Some example_cfg) = Some example_cfg \<and>
   initial_load (Some example_doc) = Inr (Some example_cfg) \<and>
   (\<exists>c. watch_events [(''change'', Some broken_doc), (''rename'', None), (''change'', None)]
          (Some example_cfg) = Some c \<and> valid_snapshot c)"
proof -
  have i: "initial_load (Some example_doc) = Inr (Some example_cfg)"
    by (simp add: initial_load_def example_doc_loads)
  note t = config_load_failure [of "Some broken_doc" "''change''" "Some example_cfg" "Some example_doc"
      "Some example_cfg" "[(''change'', Some broken_doc), (''rename'', None), (''change'', None)]"]
  show ?thesis using t broken_doc_fails i by blast
qed

section \<open>Properties of the symbol directory\<close>

lemma ASSET_TYPE_MAP_nonempty: "obj_get ASSET_TYPE_MAP k = Some v \<Longrightarrow> v \<noteq> []"
  by (auto simp: obj_get_def ASSET_TYPE_MAP_def split: if_splits)

lemma parseTickerName_nonempty: "parseTickerName s = Some t \<Longrightarrow> t \<noteq> []"
  by (auto simp: parseTickerName_def Let_def split: if_splits)

lemma getTickerInfo_ingest_item:
  "getTickerInfo (ingest_item cf item m) a t =
     (case getTickerInfo m a t of
        Some i \<Rightarrow> Some i
      | None \<Rightarrow> if normalize_item cf item = Some (a, t)
                then Some \<lparr>feedId = pyth_lazer_id item, assetType = a\<rparr> else None)"
  by (auto simp: ingest_item_def normalize_item_def getTickerInfo_def obj_get_set obj_get_Nil Let_def
      dest: ASSET_TYPE_MAP_nonempty parseTickerName_nonempty
      split: option.splits if_splits)

lemma getTickerInfo_ingest_loop:
  "getTickerInfo (ingest_loop cf items m) a t =
     (case getTickerInfo m a t of
        Some i \<Rightarrow> Some i
      | None \<Rightarrow> map_option (\<lambda>item. \<lparr>feedId = pyth_lazer_id item, assetType = a\<rparr>)
                  (find (\<lambda>item. normalize_item cf item = Some (a, t)) items))"
  by (induction items arbitrary: m) (auto simp: getTickerInfo_ingest_item split: option.splits)

lemma getTickerInfo_empty: "getTickerInfo [] a t = None"
  by (simp add: getTickerInfo_def obj_get_Nil)


lemma indexOf_split: "c \<notin> set a \<Longrightarrow> indexOf (a @ c # b) c = int (length a)"
proof -
  assume "c \<notin> set a"
  then have "takeWhile (\<lambda>x. x \<noteq> c) a = a" by (simp add: takeWhile_eq_all_conv) blast
  then show ?thesis by (simp add: indexOf_def takeWhile_tail)
qed

lemma lastIndexOf_split: "c \<notin> set b \<Longrightarrow> lastIndexOf (a @ c # b) c = int (length a)"
proof -
  assume "c \<notin> set b"
  then have "takeWhile (\<lambda>x. x \<noteq> c) (rev b) = rev b" by (simp add: takeWhile_eq_all_conv) blast
  then have "takeWhile (\<lambda>x. x \<noteq> c) (rev b @ c # rev a) = rev b" by (simp add: takeWhile_tail)
  then show ?thesis by (simp add: lastIndexOf_def)
qed

lemma nat_int_Suc: "nat (int n + 1) = Suc n"
  by simp

lemma parseTickerName_no_slash: "CHR ''/'' \<notin> set s \<Longrightarrow> parseTickerName s = None"
  by (simp add: parseTickerName_def indexOf_def)

lemma parseTickerName_slash:
  assumes "CHR ''/'' \<notin> set a"
  shows "parseTickerName (a @ CHR ''/'' # q) =
     (if lastIndexOf a (CHR ''.'') = - 1 then None
      else if drop (nat (lastIndexOf a (CHR ''.'') + 1)) a = [] \<or> q = [] then None
      else Some (drop (nat (lastIndexOf a (CHR ''.'') + 1)) a @ ''-'' @ q))"
  unfolding parseTickerName_def indexOf_split [OF assms] substring_def
  by (simp add: Let_def nat_int_Suc del: of_nat_add)

lemma parseTickerName_no_dot:
  assumes "CHR ''/'' \<notin> set a" and "CHR ''.'' \<notin> set a"
  shows "parseTickerName (a @ CHR ''/'' # q) = None"
  using assms(2) by (simp add: parseTickerName_slash [OF assms(1)] lastIndexOf_def)

lemma parseTickerName_split:
  assumes "CHR ''/'' \<notin> set p" and "CHR ''/'' \<notin> set b" and "CHR ''.'' \<notin> set b"
  shows "parseTickerName (p @ CHR ''.'' # b @ CHR ''/'' # q) =
         (if b = [] \<or> q = [] then None else Some (b @ ''-'' @ q))"
proof -
  let ?a = "p @ CHR ''.'' # b"
  have a: "CHR ''/'' \<notin> set ?a" using assms by simp
  have l: "lastIndexOf ?a (CHR ''.'') = int (length p)"
    using assms(3) by (rule lastIndexOf_split)
  have "parseTickerName (?a @ CHR ''/'' # q) = (if b = [] \<or> q = [] then None else Some (b @ ''-'' @ q))"
    unfolding parseTickerName_slash [OF a] l nat_int_Suc by simp
  then show ?thesis by simp
qed

lemma parseTickerName_iff:
  "parseTickerName s = Some t \<longleftrightarrow>
     (\<exists>p b q. s = p @ ''.'' @ b @ ''/'' @ q \<and> CHR ''/'' \<notin> set p \<and> CHR ''/'' \<notin> set b \<and>
        CHR ''.'' \<notin> set b \<and> b \<noteq> [] \<and> q \<noteq> [] \<and> t = b @ ''-'' @ q)"
proof
  assume r: "parseTickerName s = Some t"
  then have "CHR ''/'' \<in> set s" using parseTickerName_no_slash by fastforce
  then obtain a q where s: "s = a @ CHR ''/'' # q" and a: "CHR ''/'' \<notin> set a"
    by (meson split_list_first)
  have "CHR ''.'' \<in> set a" using r parseTickerName_no_dot [OF a] s by fastforce
  then obtain p b where ab: "a = p @ CHR ''.'' # b" and b: "CHR ''.'' \<notin> set b"
    by (meson split_list_last)
  have pb: "CHR ''/'' \<notin> set p" "CHR ''/'' \<notin> set b" using a ab by simp_all
  have "parseTickerName s = (if b = [] \<or> q = [] then None else Some (b @ ''-'' @ q))"
    using parseTickerName_split [OF pb b, of q] s ab by simp
  with r have "b \<noteq> []" "q \<noteq> []" "t = b @ ''-'' @ q" by (auto split: if_splits)
  with s ab pb b show "\<exists>p b q. s = p @ ''.'' @ b @ ''/'' @ q \<and> CHR ''/'' \<notin> set p \<and> CHR ''/'' \<notin> set b \<and>
        CHR ''.'' \<notin> set b \<and> b \<noteq> [] \<and> q \<noteq> [] \<and> t = b @ ''-'' @ q"
    by (intro exI [of _ p] exI [of _ b] exI [of _ q]) simp
next
  assume "\<exists>p b q. s = p @ ''.'' @ b @ ''/'' @ q \<and> CHR ''/'' \<notin> set p \<and> CHR ''/'' \<notin> set b \<and>
        CHR ''.'' \<notin> set b \<and> b \<noteq> [] \<and> q \<noteq> [] \<and> t = b @ ''-'' @ q"
  then obtain p b q where "s = p @ CHR ''.'' # b @ CHR ''/'' # q" "CHR ''/'' \<notin> set p"
    "CHR ''/'' \<notin> set b" "CHR ''.'' \<notin> set b" "b \<noteq> []" "q \<noteq> []" "t = b @ ''-'' @ q"
    by auto
  then show "parseTickerName s = Some t"
    using parseTickerName_split [of p b q] by simp
qed

lemma parse_examples:
  "parseTickerName ''Crypto.BTC/USD'' = Some ''BTC-USD''"
  "parseTickerName ''Equity.US.AAPL/USD'' = Some ''AAPL-USD''"
  by (simp_all add: parseTickerName_def indexOf_def lastIndexOf_def substring_def Let_def)

lemma normalize_item_iff:
  "normalize_item cf item = Some (a, t) \<longleftrightarrow>
     state item = ''stable'' \<and> obj_get ASSET_TYPE_MAP (asset_type item) = Some a \<and>
     a \<in> set (obj_keys cf) \<and> parseTickerName (symbol item) = Some t"
  using obj_get_None_keys [of cf a]
  by (auto simp: normalize_item_def split: option.splits if_splits)

lemma example_ingest: "initSymbols example_cfg (Catalog example_catalog) = Inr example_directory"
  by code_simp

text \<open>
  Claim C6. After ingesting a catalog, the directory has a record under an asset type and
  a ticker exactly when some entry of the catalog is stable, has an upstream asset type
  whose alias in the fixed table is that asset type, the asset type being configured, and
  has a symbol that parses to that ticker. The alias of \<open>metal\<close> is \<open>commodity\<close>. A symbol
  parses to \<open>BASE-QUOTE\<close> exactly when it is a prefix, a dot, a non-empty \<open>BASE\<close> without
  dot, a slash and a non-empty \<open>QUOTE\<close>, with no slash before that one:
  \<open>Crypto.BTC/USD\<close> gives \<open>BTC-USD\<close> and \<open>Equity.US.AAPL/USD\<close> gives \<open>AAPL-USD\<close>.
\<close>

theorem ingest_includes_iff:
  "(\<exists>dir. initSymbols cfg (Catalog data) = Inr dir \<and>
      (\<forall>a t. getTickerInfo dir a t \<noteq> None \<longleftrightarrow>
         (\<exists>item \<in> set data.
            state item = ''stable'' \<and>
            obj_get ASSET_TYPE_MAP (asset_type item) = Some a \<and>
            a \<in> set (obj_keys (assetTypes cfg)) \<and>
            parseTickerName (symbol item) = Some t))) \<and>
   obj_get ASSET_TYPE_MAP ''metal'' = Some ''commodity'' \<and>
   (\<forall>s t. parseTickerName s = Some t \<longleftrightarrow>
      (\<exists>p b q. s = p @ ''.'' @ b @ ''/'' @ q \<and> CHR ''/'' \<notin> set p \<and> CHR ''/'' \<notin> set b \<and>
         CHR ''.'' \<notin> set b \<and> b \<noteq> [] \<and> q \<noteq> [] \<and> t = b @ ''-'' @ q)) \<and>
   parseTickerName ''Crypto.BTC/USD'' = Some ''BTC-USD'' \<and>
   parseTickerName ''Equity.US.AAPL/USD'' = Some ''AAPL-USD''"
proof (intro conjI)
  have "getTickerInfo (ingest_loop (assetTypes cfg) data []) a t \<noteq> None \<longleftrightarrow>
         (\<exists>item \<in> set data.
            state item = ''stable'' \<and>
            obj_get ASSET_TYPE_MAP (asset_type item) = Some a \<and>
            a \<in> set (obj_keys (assetTypes cfg)) \<and>
            parseTickerName (symbol item) = Some t)" for a t
    unfolding getTickerInfo_ingest_loop getTickerInfo_empty
    by (simp add: find_None_set normalize_item_iff) blast
  then show "\<exists>dir. initSymbols cfg (Catalog data) = Inr dir \<and>
      (\<forall>a t. getTickerInfo dir a t \<noteq> None \<longleftrightarrow>
         (\<exists>item \<in> set data.
            state item = ''stable'' \<and>
            obj_get ASSET_TYPE_MAP (asset_type item) = Some a \<and>
            a \<in> set (obj_keys (assetTypes cfg)) \<and>
            parseTickerName (symbol item) = Some t))"
    by (simp add: initSymbols_def)
  show "obj_get ASSET_TYPE_MAP ''metal'' = Some ''commodity''"
    by (simp add: obj_get_def ASSET_TYPE_MAP_def)
  show "\<forall>s t. parseTickerName s = Some t \<longleftrightarrow>
      (\<exists>p b q. s = p @ ''.'' @ b @ ''/'' @ q \<and> CHR ''/'' \<notin> set p \<and> CHR ''/'' \<notin> set b \<and>
         CHR ''.'' \<notin> set b \<and> b \<noteq> [] \<and> q \<noteq> [] \<and> t = b @ ''-'' @ q)"
    using parseTickerName_iff by blast
qed (rule parse_examples)+

theorem ingest_includes_iff_witness:
  "initSymbols example_cfg (Catalog example_catalog) = Inr example_directory \<and>
   getTickerInfo example_directory ''commodity'' ''XAU-USD'' \<noteq> None \<and>
   getTickerInfo example_directory ''equity'' ''AAPL-USD'' = None"
proof -
  from ingest_includes_iff [of example_cfg example_catalog] example_ingest
  have iff: "getTickerInfo example_directory a t \<noteq> None \<longleftrightarrow>
         (\<exists>item \<in> set example_catalog.
            state item = ''stable'' \<and>
            obj_get ASSET_TYPE_MAP (asset_type item) = Some a \<and>
            a \<in> set (obj_keys (assetTypes example_cfg)) \<and>
            parseTickerName (symbol item) = Some t)" for a t
    by auto
  have "parseTickerName ''Metal.XAU/USD'' = Some ''XAU-USD''"
    by (simp add: parseTickerName_def indexOf_def lastIndexOf_def substring_def Let_def)
  then have "\<exists>item \<in> set example_catalog.
            state item = ''stable'' \<and>
            obj_get ASSET_TYPE_MAP (asset_type item) = Some ''commodity'' \<and>
            ''commodity'' \<in> set (obj_keys (assetTypes example_cfg)) \<and>
            parseTickerName (symbol item) = Some ''XAU-USD''"
    by (simp add: example_catalog_def example_cfg_def obj_keys_def obj_get_def ASSET_TYPE_MAP_def)
  then have a: "getTickerInfo example_directory ''commodity'' ''XAU-USD'' \<noteq> None"
    using iff by blast
  have "''equity'' \<notin> set (obj_keys (assetTypes example_cfg))"
    by (simp add: example_cfg_def obj_keys_def)
  then have "getTickerInfo example_directory ''equity'' ''AAPL-USD'' = None"
    using iff [of "''equity''" "''AAPL-USD''"] by blast
  with a example_ingest show ?thesis by blast
qed

text \<open>
  Claim C7. When two entries of one catalog normalize to the same asset type and ticker,
  the directory holds for that pair the feed id of the first entry of the catalog that
  normalizes to it: the feed id of the earlier of the two when no entry before it does,
  and never that of the later one in its place.
\<close>

theorem first_seen_wins:
  assumes "normalize_item (assetTypes cfg) e1 = Some (a, t)"
    and "normalize_item (assetTypes cfg) e2 = Some (a, t)"
  shows "\<exists>dir. initSymbols cfg (Catalog (pre @ e1 # mid @ e2 # post)) = Inr dir \<and>
           getTickerInfo dir a t =
             Some \<lparr>feedId = pyth_lazer_id
                      (case find (\<lambda>x. normalize_item (assetTypes cfg) x = Some (a, t)) pre of
                         Some f \<Rightarrow> f | None \<Rightarrow> e1),
                   assetType = a\<rparr> \<and>
           ((\<forall>x \<in> set pre. normalize_item (assetTypes cfg) x \<noteq> Some (a, t)) \<longrightarrow>
              getTickerInfo dir a t = Some \<lparr>feedId = pyth_lazer_id e1, assetType = a\<rparr>)"
proof -
  let ?P = "\<lambda>x. normalize_item (assetTypes cfg) x = Some (a, t)"
  have f: "find ?P (pre @ e1 # mid @ e2 # post) =
           Some (case find ?P pre of Some f \<Rightarrow> f | None \<Rightarrow> e1)"
    using assms(1) by (induction pre) auto
  have n: "find ?P pre = None" if "\<forall>x \<in> set pre. \<not> ?P x"
    using that by (simp add: find_None_set)
  show ?thesis
    unfolding initSymbols_def
    by (auto simp: getTickerInfo_ingest_loop getTickerInfo_empty f n)
qed

theorem first_seen_wins_witness:
  "normalize_item (assetTypes example_cfg)
     \<lparr>state = ''stable'', asset_type = ''crypto'', symbol = ''Crypto.BTC/USD'', pyth_lazer_id = 1\<rparr> =
     Some (''crypto'', ''BTC-USD'') \<and>
   normalize_item (assetTypes example_cfg)
     \<lparr>state = ''stable'', asset_type = ''crypto'', symbol = ''Crypto.FundingRate.BTC/USD'',
      pyth_lazer_id = 1001\<rparr> =
     Some (''crypto'', ''BTC-USD'') \<and>
   normalize_item (assetTypes example_cfg)
     \<lparr>state = ''coming_soon'', asset_type = ''crypto'', symbol = ''Crypto.NEW/USD'', pyth_lazer_id = 7\<rparr> =
     None \<and>
   (\<exists>dir. initSymbols example_cfg (Catalog example_catalog) = Inr dir \<and>
      getTickerInfo dir ''crypto'' ''BTC-USD'' = Some \<lparr>feedId = 1, assetType = ''crypto''\<rparr>)"
proof -
  let ?e0 = "\<lparr>state = ''coming_soon'', asset_type = ''crypto'', symbol = ''Crypto.NEW/USD'', pyth_lazer_id = 7\<rparr>"
  let ?e1 = "\<lparr>state = ''stable'', asset_type = ''crypto'', symbol = ''Crypto.BTC/USD'', pyth_lazer_id = 1\<rparr>"
  let ?e2 = "\<lparr>state = ''stable'', asset_type = ''crypto'', symbol = ''Crypto.FundingRate.BTC/USD'',
      pyth_lazer_id = 1001\<rparr>"
  let ?mid = "[\<lparr>state = ''stable'', asset_type = ''equity'', symbol = ''Equity.US.AAPL/USD'', pyth_lazer_id = 922\<rparr>]"
  let ?post = "[\<lparr>state = ''stable'', asset_type = ''metal'', symbol = ''Metal.XAU/USD'', pyth_lazer_id = 346\<rparr>,
                \<lparr>state = ''stable'', asset_type = ''crypto'', symbol = ''BTCUSD'', pyth_lazer_id = 9\<rparr>]"
  have n1: "normalize_item (assetTypes example_cfg) ?e1 = Some (''crypto'', ''BTC-USD'')"
    by code_simp
  have n2: "normalize_item (assetTypes example_cfg) ?e2 = Some (''crypto'', ''BTC-USD'')"
    by code_simp
  have n0: "normalize_item (assetTypes example_cfg) ?e0 = None"
    by code_simp
  then have pre: "\<forall>x \<in> set [?e0]. normalize_item (assetTypes example_cfg) x \<noteq> Some (''crypto'', ''BTC-USD'')"
    by simp
  have c: "[?e0] @ ?e1 # ?mid @ ?e2 # ?post = example_catalog"
    by (simp add: example_catalog_def)
  have "\<exists>dir. initSymbols example_cfg (Catalog example_catalog) = Inr dir \<and>
      getTickerInfo dir ''crypto'' ''BTC-USD'' = Some \<lparr>feedId = 1, assetType = ''crypto''\<rparr>"
    using first_seen_wins [OF n1 n2, where pre = "[?e0]" and mid = ?mid and post = ?post] pre
    unfolding c by auto
  with n1 n2 n0 show ?thesis by blast
qed

text \<open>
  Claim C8. \<open>getTickerInfo\<close> reads what \<open>getTickersForAssetType\<close> lists: for every
  directory, asset type and ticker the lookup is the entry of the listing, so a ticker
  that appears in the listing is found by the lookup, with the feed id of the listing.
\<close>

theorem lookup_list_roundtrip:
  "getTickerInfo dir a t = obj_get (getTickersForAssetType dir a) t \<and>
   (t \<in> set (obj_keys (getTickersForAssetType dir a)) \<longrightarrow>
      (\<exists>listed found.
         obj_get (getTickersForAssetType dir a) t = Some listed \<and>
         getTickerInfo dir a t = Some found \<and>
         feedId found = feedId listed))"
  using obj_get_None_keys [of "getTickersForAssetType dir a" t]
  by (auto simp: getTickerInfo_def getTickersForAssetType_def obj_get_Nil split: option.splits)

theorem lookup_list_roundtrip_witness:
  "''BTC-USD'' \<in> set (obj_keys (getTickersForAssetType example_directory ''crypto'')) \<and>
   obj_get (getTickersForAssetType example_directory ''crypto'') ''BTC-USD'' =
     Some \<lparr>feedId = 1, assetType = ''crypto''\<rparr> \<and>
   getTickerInfo example_directory ''crypto'' ''BTC-USD'' = Some \<lparr>feedId = 1, assetType = ''crypto''\<rparr>"
proof -
  have m: "''BTC-USD'' \<in> set (obj_keys (getTickersForAssetType example_directory ''crypto''))"
    by (simp add: getTickersForAssetType_def example_directory_def obj_get_def obj_keys_def)
  have l: "obj_get (getTickersForAssetType example_directory ''crypto'') ''BTC-USD'' =
     Some \<lparr>feedId = 1, assetType = ''crypto''\<rparr>"
    by (simp add: getTickersForAssetType_def example_directory_def obj_get_def)
  from lookup_list_roundtrip [of example_directory "''crypto''" "''BTC-USD''"] m l
  show ?thesis by auto
qed

section \<open>Properties of the purchase flow controller\<close>

subsection \<open>The ticker pattern\<close>

lemma hyphen_not_upper_or_digit: "\<not> is_upper_or_digit (CHR ''-'')"
  by (simp add: is_upper_or_digit_def is_upper_def is_digit_def)

lemma ticker_regex_iff:
  "ticker_regex s \<longleftrightarrow>
     (\<exists>b q. s = b @ ''-'' @ q \<and> b \<noteq> [] \<and> q \<noteq> [] \<and>
        list_all is_upper_or_digit b \<and> list_all is_upper q)"
proof
  assume r: "ticker_regex s"
  define b where "b = takeWhile is_upper_or_digit s"
  from r obtain q where q: "dropWhile is_upper_or_digit s = CHR ''-'' # q" "q \<noteq> []" "list_all is_upper q"
    and b: "b \<noteq> []"
    by (auto simp: ticker_regex_def Let_def b_def split: list.splits)
  have "s = b @ ''-'' @ q"
    using takeWhile_dropWhile_id [of is_upper_or_digit s] q(1) by (simp add: b_def)
  moreover have "list_all is_upper_or_digit b"
    by (simp add: b_def list_all_iff) (meson set_takeWhileD)
  ultimately show "\<exists>b q. s = b @ ''-'' @ q \<and> b \<noteq> [] \<and> q \<noteq> [] \<and>
        list_all is_upper_or_digit b \<and> list_all is_upper q"
    using b q by blast
next
  assume "\<exists>b q. s = b @ ''-'' @ q \<and> b \<noteq> [] \<and> q \<noteq> [] \<and>
        list_all is_upper_or_digit b \<and> list_all is_upper q"
  then obtain b q where s: "s = b @ CHR ''-'' # q" and b: "b \<noteq> []" "list_all is_upper_or_digit b"
    and q: "q \<noteq> []" "list_all is_upper q"
    by auto
  have t: "takeWhile is_upper_or_digit s = b"
    using b(2) hyphen_not_upper_or_digit by (simp add: s list_all_iff takeWhile_append2)
  have d: "dropWhile is_upper_or_digit s = CHR ''-'' # q"
    using b(2) hyphen_not_upper_or_digit by (simp add: s list_all_iff dropWhile_append2)
  show "ticker_regex s"
    using b q by (simp add: ticker_regex_def t d)
qed

lemma safeParse_Inr_iff:
  "purchaseBody_safeParse b = Inr t \<longleftrightarrow>
     (\<exists>fs. b = Some (JObj fs) \<and> map_of fs ''ticker'' = Some (JStr t) \<and> ticker_regex t)"
  by (auto simp: purchaseBody_safeParse_def split: option.splits json.splits if_splits)

lemma safeParse_cases:
  "(\<exists>t. purchaseBody_safeParse b = Inr t) \<or> (\<exists>issues. purchaseBody_safeParse b = Inl issues)"
  by (cases "purchaseBody_safeParse b") auto

subsection \<open>The three outcomes of the handler\<close>

lemma purchaseHandler_invalid:
  "purchaseBody_safeParse (req_body req) = Inl issues \<Longrightarrow>
   purchaseHandler js env cfg dir a c d req =
     (error_response 400 ''VALIDATION_ERROR'' (format_issues issues) None, [])"
  by (simp add: purchaseHandler_def)

lemma purchaseHandler_unknown:
  "purchaseBody_safeParse (req_body req) = Inr t \<Longrightarrow> getTickerInfo dir a t = None \<Longrightarrow>
   \<exists>msg. purchaseHandler js env cfg dir a c d req = (error_response 400 ''INVALID_TICKER'' msg None, [])"
  unfolding purchaseHandler_def Let_def by (simp only: sum.case option.case) blast

lemma purchaseHandler_fulfilled:
  assumes "purchaseBody_safeParse (req_body req) = Inr t" and "getTickerInfo dir a t = Some info"
  shows "\<exists>cr rec. purchaseHandler js env cfg dir a c d req = (ok_response cr, [rec]) \<and>
           cr_ticker cr = t \<and> cr_feedId cr = feedId info \<and>
           pricePaid cr = map_option formatted (computePrice js cfg a c d) \<and>
           au_pricePaid rec = map_option formatted (computePrice js cfg a c d) \<and>
           priceFeedIds (subscribe (pythPro cr)) = [feedId info] \<and>
           sub_channel (subscribe (pythPro cr)) =
             (case obj_get (channels cfg) c of Some ch \<Rightarrow> wsChannel ch | None \<Rightarrow> ''fixed_rate@200ms'')"
  unfolding purchaseHandler_def Let_def
  by (simp only: assms sum.case option.case) (intro exI conjI, rule refl, simp_all)

lemma error_code_error_response [simp]: "error_code (error_response s c m h) = Some c"
  by (simp add: error_code_def error_response_def)

lemma status_error_response [simp]: "status (error_response s c m h) = s"
  by (simp add: error_response_def)

lemma credential_of_error_response [simp]: "credential_of (error_response s c m h) = None"
  by (simp add: credential_of_def error_response_def)

lemma error_code_ok_response [simp]: "error_code (ok_response x) = None"
  by (simp add: error_code_def ok_response_def)

lemma status_ok_response [simp]: "status (ok_response x) = 200"
  by (simp add: ok_response_def)

lemma credential_of_ok_response [simp]: "credential_of (ok_response x) = Some x"
  by (simp add: credential_of_def ok_response_def)

lemma route_desync_error_simps [simp]:
  "route_desync_error (error_response s c m h) \<longleftrightarrow> s = 500 \<and> c \<noteq> ''VALIDATION_ERROR'' \<and> c \<noteq> ''INVALID_TICKER''"
  "\<not> route_desync_error (ok_response x)"
  by (simp_all add: route_desync_error_def error_response_def ok_response_def)

text \<open>
  Claim C4, as the code has it. The handler answers 400 with the code \<open>VALIDATION_ERROR\<close>
  exactly when the body is not an object whose \<open>ticker\<close> is a string matching the pattern,
  and the pattern is: a non-empty base of capital letters and digits, a hyphen, and a
  non-empty quote of capital letters only. The rejection is the same whatever the symbol
  directory, the pricing snapshot and the route are: no lookup precedes it.
\<close>

theorem purchase_ticker_validation:
  "(error_code (fst (purchaseHandler js env cfg dir a c d req)) = Some ''VALIDATION_ERROR'' \<longleftrightarrow>
      \<not> (\<exists>fs t. req_body req = Some (JObj fs) \<and> map_of fs ''ticker'' = Some (JStr t) \<and> ticker_regex t)) \<and>
   (ticker_regex t \<longleftrightarrow>
      (\<exists>b q. t = b @ ''-'' @ q \<and> b \<noteq> [] \<and> q \<noteq> [] \<and>
         list_all is_upper_or_digit b \<and> list_all is_upper q)) \<and>
   (\<not> (\<exists>fs t. req_body req = Some (JObj fs) \<and> map_of fs ''ticker'' = Some (JStr t) \<and> ticker_regex t) \<longrightarrow>
      (\<exists>msg. \<forall>js' env' cfg' dir' a' c' d'.
         purchaseHandler js' env' cfg' dir' a' c' d' req =
           (error_response 400 ''VALIDATION_ERROR'' msg None, [])))"
proof (intro conjI)
  show "error_code (fst (purchaseHandler js env cfg dir a c d req)) = Some ''VALIDATION_ERROR'' \<longleftrightarrow>
      \<not> (\<exists>fs t. req_body req = Some (JObj fs) \<and> map_of fs ''ticker'' = Some (JStr t) \<and> ticker_regex t)"
  proof (cases "purchaseBody_safeParse (req_body req)")
    case (Inl issues)
    then have "\<not> (\<exists>fs t. req_body req = Some (JObj fs) \<and> map_of fs ''ticker'' = Some (JStr t) \<and> ticker_regex t)"
      using safeParse_Inr_iff [of "req_body req"] by auto
    then show ?thesis by (simp add: purchaseHandler_invalid [OF Inl])
  next
    case (Inr t)
    then have ok: "\<exists>fs t. req_body req = Some (JObj fs) \<and> map_of fs ''ticker'' = Some (JStr t) \<and> ticker_regex t"
      using safeParse_Inr_iff [of "req_body req" t] by auto
    have "error_code (fst (purchaseHandler js env cfg dir a c d req)) \<noteq> Some ''VALIDATION_ERROR''"
    proof (cases "getTickerInfo dir a t")
      case None
      from purchaseHandler_unknown [OF Inr None, of js env cfg c d]
      obtain msg where "purchaseHandler js env cfg dir a c d req = (error_response 400 ''INVALID_TICKER'' msg None, [])"
        by blast
      then show ?thesis by simp
    next
      case (Some info)
      from purchaseHandler_fulfilled [OF Inr Some, of js env cfg c d]
      obtain cr rec where "purchaseHandler js env cfg dir a c d req = (ok_response cr, [rec])"
        by blast
      then show ?thesis by simp
    qed
    with ok show ?thesis by blast
  qed
  show "ticker_regex t \<longleftrightarrow>
      (\<exists>b q. t = b @ ''-'' @ q \<and> b \<noteq> [] \<and> q \<noteq> [] \<and>
         list_all is_upper_or_digit b \<and> list_all is_upper q)"
    by (rule ticker_regex_iff)
  show "\<not> (\<exists>fs t. req_body req = Some (JObj fs) \<and> map_of fs ''ticker'' = Some (JStr t) \<and> ticker_regex t) \<longrightarrow>
      (\<exists>msg. \<forall>js' env' cfg' dir' a' c' d'.
         purchaseHandler js' env' cfg' dir' a' c' d' req =
           (error_response 400 ''VALIDATION_ERROR'' msg None, []))"
  proof
    assume "\<not> (\<exists>fs t. req_body req = Some (JObj fs) \<and> map_of fs ''ticker'' = Some (JStr t) \<and> ticker_regex t)"
    then obtain issues where "purchaseBody_safeParse (req_body req) = Inl issues"
      using safeParse_cases [of "req_body req"] safeParse_Inr_iff [of "req_body req"] by blast
    then show "\<exists>msg. \<forall>js' env' cfg' dir' a' c' d'.
         purchaseHandler js' env' cfg' dir' a' c' d' req =
           (error_response 400 ''VALIDATION_ERROR'' msg None, [])"
      using purchaseHandler_invalid by blast
  qed
qed

theorem purchase_ticker_validation_witness:
  "error_code (fst (purchaseHandler double_number example_env example_cfg example_directory
      ''crypto'' ''fixed'' ''1h'' (request_for ''btc-usd''))) = Some ''VALIDATION_ERROR'' \<and>
   \<not> ticker_regex ''btc-usd'' \<and>
   ticker_regex ''BTC-USD'' \<and>
   error_code (fst (purchaseHandler double_number example_env example_cfg example_directory
      ''crypto'' ''fixed'' ''1h'' (request_for ''BTC-USD''))) \<noteq> Some ''VALIDATION_ERROR''"
proof -
  have n: "\<not> ticker_regex ''btc-usd''" by code_simp
  have y: "ticker_regex ''BTC-USD''" by code_simp
  note t1 = purchase_ticker_validation [of double_number example_env example_cfg example_directory
      "''crypto''" "''fixed''" "''1h''" "request_for ''btc-usd''"]
  note t2 = purchase_ticker_validation [of double_number example_env example_cfg example_directory
      "''crypto''" "''fixed''" "''1h''" "request_for ''BTC-USD''"]
  have "error_code (fst (purchaseHandler double_number example_env example_cfg example_directory
      ''crypto'' ''fixed'' ''1h'' (request_for ''btc-usd''))) = Some ''VALIDATION_ERROR''"
    using t1 n by (simp add: request_for_def)
  moreover have "error_code (fst (purchaseHandler double_number example_env example_cfg example_directory
      ''crypto'' ''fixed'' ''1h'' (request_for ''BTC-USD''))) \<noteq> Some ''VALIDATION_ERROR''"
    using t2 y by (simp add: request_for_def)
  ultimately show ?thesis using n y by blast
qed

text \<open>
  The claim C4 as the specification states it (an uppercase alphanumeric quote) fails:
  \<open>BTC-USD1\<close> has that shape, and the handler rejects it as a validation error.
\<close>

theorem purchase_ticker_pattern_counterexample:
  "spec_ticker_pattern ''BTC-USD1'' \<and>
   fst (purchaseHandler double_number example_env example_cfg example_directory
      ''crypto'' ''fixed'' ''1h'' (request_for ''BTC-USD1'')) =
     error_response 400 ''VALIDATION_ERROR'' ''ticker: Invalid'' None"
  by code_simp

text \<open>
  Claim C1, as the code has it. The handler never answers with a route
  desynchronization error. When \<open>computePrice\<close> finds no price for the route, a request
  whose ticker is valid and known is fulfilled all the same: the response is 200 with a
  credential descriptor whose \<open>pricePaid\<close> is absent, and the audit record has no price
  either; any other response is one of the two ticker errors, with status 400.
\<close>

theorem purchase_without_price:
  assumes "computePrice js cfg a c d = None"
  shows "\<not> route_desync_error (fst (purchaseHandler js env cfg dir a c d req)) \<and>
    (\<forall>t info. purchaseBody_safeParse (req_body req) = Inr t \<and> getTickerInfo dir a t = Some info \<longrightarrow>
       (\<exists>cr rec. purchaseHandler js env cfg dir a c d req = (ok_response cr, [rec]) \<and>
          cr_feedId cr = feedId info \<and> pricePaid cr = None \<and> au_pricePaid rec = None)) \<and>
    (status (fst (purchaseHandler js env cfg dir a c d req)) = 200 \<or>
     status (fst (purchaseHandler js env cfg dir a c d req)) = 400 \<and>
       (error_code (fst (purchaseHandler js env cfg dir a c d req)) = Some ''VALIDATION_ERROR'' \<or>
        error_code (fst (purchaseHandler js env cfg dir a c d req)) = Some ''INVALID_TICKER''))"
proof -
  let ?r = "purchaseHandler js env cfg dir a c d req"
  have full: "\<exists>cr rec. ?r = (ok_response cr, [rec]) \<and>
          cr_feedId cr = feedId info \<and> pricePaid cr = None \<and> au_pricePaid rec = None"
    if "purchaseBody_safeParse (req_body req) = Inr t" "getTickerInfo dir a t = Some info" for t info
    using purchaseHandler_fulfilled [OF that, of js env cfg c d] assms by auto
  have rest: "\<not> route_desync_error (fst ?r) \<and>
    (status (fst ?r) = 200 \<or>
     status (fst ?r) = 400 \<and>
       (error_code (fst ?r) = Some ''VALIDATION_ERROR'' \<or> error_code (fst ?r) = Some ''INVALID_TICKER''))"
  proof (cases "purchaseBody_safeParse (req_body req)")
    case (Inl issues)
    show ?thesis by (simp add: purchaseHandler_invalid [OF Inl])
  next
    case (Inr t)
    show ?thesis
    proof (cases "getTickerInfo dir a t")
      case None
      from purchaseHandler_unknown [OF Inr None, of js env cfg c d]
      obtain msg where "?r = (error_response 400 ''INVALID_TICKER'' msg None, [])" by blast
      then show ?thesis by simp
    next
      case (Some info)
      from full [OF Inr Some] obtain cr rec where "?r = (ok_response cr, [rec])" by blast
      then show ?thesis by simp
    qed
  qed
  from full rest show ?thesis by blast
qed

theorem purchase_without_price_witness:
  "computePrice double_number reloaded_cfg ''crypto'' ''fixed'' ''24h'' = None \<and>
   purchaseBody_safeParse (req_body (request_for ''BTC-USD'')) = Inr ''BTC-USD'' \<and>
   getTickerInfo example_directory ''crypto'' ''BTC-USD'' = Some \<lparr>feedId = 1, assetType = ''crypto''\<rparr> \<and>
   (\<exists>cr rec. purchaseHandler double_number example_env reloaded_cfg example_directory
        ''crypto'' ''fixed'' ''24h'' (request_for ''BTC-USD'') = (ok_response cr, [rec]) \<and>
      cr_feedId cr = 1 \<and> pricePaid cr = None \<and> au_pricePaid rec = None)"
proof -
  have p: "computePrice double_number reloaded_cfg ''crypto'' ''fixed'' ''24h'' = None"
    by code_simp
  have b: "purchaseBody_safeParse (req_body (request_for ''BTC-USD'')) = Inr ''BTC-USD''"
    by code_simp
  have g: "getTickerInfo example_directory ''crypto'' ''BTC-USD'' = Some \<lparr>feedId = 1, assetType = ''crypto''\<rparr>"
    by code_simp
  from purchase_without_price [OF p, of example_env example_directory "request_for ''BTC-USD''"] b g
  have "\<exists>cr rec. purchaseHandler double_number example_env reloaded_cfg example_directory
        ''crypto'' ''fixed'' ''24h'' (request_for ''BTC-USD'') = (ok_response cr, [rec]) \<and>
      cr_feedId cr = feedId \<lparr>feedId = 1, assetType = ''crypto''\<rparr> \<and> pricePaid cr = None \<and>
      au_pricePaid rec = None"
    by blast
  with p b g show ?thesis by simp
qed

text \<open>
  The claim C1 as the specification states it fails: on the route \<open>crypto/fixed/24h\<close>,
  registered before a reload dropped the duration \<open>24h\<close>, there is no price, and the
  purchase of \<open>BTC-USD\<close> is answered with status 200 and a credential descriptor, not with
  a route desynchronization error.
\<close>

theorem purchase_without_price_counterexample:
  "computePrice double_number reloaded_cfg ''crypto'' ''fixed'' ''24h'' = None \<and>
   status (fst (purchaseHandler double_number example_env reloaded_cfg example_directory
      ''crypto'' ''fixed'' ''24h'' (request_for ''BTC-USD''))) = 200 \<and>
   map_option pricePaid (credential_of (fst (purchaseHandler double_number example_env reloaded_cfg
      example_directory ''crypto'' ''fixed'' ''24h'' (request_for ''BTC-USD'')))) = Some None \<and>
   map_option cr_feedId (credential_of (fst (purchaseHandler double_number example_env reloaded_cfg
      example_directory ''crypto'' ''fixed'' ''24h'' (request_for ''BTC-USD'')))) = Some 1 \<and>
   \<not> route_desync_error (fst (purchaseHandler double_number example_env reloaded_cfg example_directory
      ''crypto'' ''fixed'' ''24h'' (request_for ''BTC-USD'')))"
  by code_simp

text \<open>
  Claim C10. When the channel key of the route is absent from the pricing snapshot and
  the request reaches fulfilment (its ticker is valid and known under the route's asset
  type), the handler answers 200 with a credential descriptor whose subscribe message
  names the channel \<open>fixed_rate@200ms\<close>.
\<close>

theorem purchase_default_channel:
  assumes "obj_get (channels cfg) c = None"
    and "purchaseBody_safeParse (req_body req) = Inr t"
    and "getTickerInfo dir a t = Some info"
  shows "status (fst (purchaseHandler js env cfg dir a c d req)) = 200 \<and>
    (\<exists>cr. credential_of (fst (purchaseHandler js env cfg dir a c d req)) = Some cr \<and>
       cr_channel cr = c \<and>
       priceFeedIds (subscribe (pythPro cr)) = [feedId info] \<and>
       sub_channel (subscribe (pythPro cr)) = ''fixed_rate@200ms'')"
  using assms by (simp add: purchaseHandler_def Let_def)

theorem purchase_default_channel_witness:
  "obj_get (channels reloaded_cfg) ''realtime'' = None \<and>
   purchaseBody_safeParse (req_body (request_for ''BTC-USD'')) = Inr ''BTC-USD'' \<and>
   getTickerInfo example_directory ''crypto'' ''BTC-USD'' = Some \<lparr>feedId = 1, assetType = ''crypto''\<rparr> \<and>
   status (fst (purchaseHandler double_number example_env reloaded_cfg example_directory
      ''crypto'' ''realtime'' ''1h'' (request_for ''BTC-USD''))) = 200 \<and>
   (\<exists>cr. credential_of (fst (purchaseHandler double_number example_env reloaded_cfg example_directory
        ''crypto'' ''realtime'' ''1h'' (request_for ''BTC-USD''))) = Some cr \<and>
      sub_channel (subscribe (pythPro cr)) = ''fixed_rate@200ms'')"
proof -
  have ch: "obj_get (channels reloaded_cfg) ''realtime'' = None"
    by code_simp
  have b: "purchaseBody_safeParse (req_body (request_for ''BTC-USD'')) = Inr ''BTC-USD''"
    by code_simp
  have g: "getTickerInfo example_directory ''crypto'' ''BTC-USD'' = Some \<lparr>feedId = 1, assetType = ''crypto''\<rparr>"
    by code_simp
  from purchase_default_channel [OF ch b g, of double_number example_env "''1h''"] ch b g
  show ?thesis by blast
qed

section \<open>Properties of the pricing endpoint\<close>

lemma getTickerInfo_listing: "obj_get (getTickersForAssetType dir a) t = getTickerInfo dir a t"
  by (simp add: getTickerInfo_def getTickersForAssetType_def obj_get_Nil split: option.splits)

lemma filter_error_None_assetType:
  "filter_error cfg atype channel = None \<Longrightarrow> truthy atype \<Longrightarrow>
   the atype \<in> set (obj_keys (assetTypes cfg))"
  using obj_get_None_keys [of "assetTypes cfg" "the atype"]
  by (auto simp: filter_error_def split: if_splits)

lemma split_on_no_separator: "c \<notin> set s \<Longrightarrow> split_on c s = [s]"
  by (induction s) auto

lemma parse_tickers_single:
  "tp \<noteq> [] \<Longrightarrow> CHR '','' \<notin> set tp \<Longrightarrow> trim tp = tp \<Longrightarrow> parse_tickers (Some tp) = [tp]"
  by (simp add: parse_tickers_def truthy_def split_on_no_separator)

lemma has_property_own:
  "\<not> inherited t \<Longrightarrow> has_property (getTickersForAssetType dir a) t \<longleftrightarrow> getTickerInfo dir a t \<noteq> None"
  by (simp add: has_property_def getTickerInfo_listing)

lemma found_in_own:
  "\<not> inherited t \<Longrightarrow> found_in (getAllTickers dir) a t \<longleftrightarrow> getTickerInfo dir a t \<noteq> None"
  by (simp add: found_in_def lookup_feedId_def getAllTickers_def getTickerInfo_def split: option.splits)

lemma not_found_filter:
  assumes "\<not> list_ex inherited ts"
  shows "filter (\<lambda>t. \<not> list_ex (\<lambda>a. found_in (getAllTickers dir) a t) ks) ts =
         filter (\<lambda>t. \<forall>a \<in> set ks. getTickerInfo dir a t = None) ts"
proof (rule filter_cong [OF refl])
  fix t assume "t \<in> set ts"
  then have "\<not> inherited t" using assms by (auto simp: list_ex_iff)
  then show "(\<not> list_ex (\<lambda>a. found_in (getAllTickers dir) a t) ks) =
             (\<forall>a \<in> set ks. getTickerInfo dir a t = None)"
    by (simp add: list_ex_iff found_in_own)
qed

lemma pricingRouter_ticker_unknown:
  assumes "querySchema_safeParse q = Inr (Some tp, atype, channel)"
    and "within_model cfg atype channel"
    and "filter_error cfg atype channel = None"
    and "tp \<noteq> []" and "\<not> inherited tp"
    and "\<forall>a \<in> set (obj_keys (assetTypes cfg)). getTickerInfo dir a tp = None"
  shows "pricingRouter_ticker js cfg dir q =
     Answer
       (error_response 400 ''INVALID_TICKER''
          (''Ticker '' @ [CHR 0x27] @ tp @ [CHR 0x27] @ '' not found'' @
           (if truthy atype then '' in asset type '' @ [CHR 0x27] @ the atype @ [CHR 0x27] else []))
          None)"
proof -
  let ?filtered = "if truthy atype then [the atype] else obj_keys (assetTypes cfg)"
  have sub: "set ?filtered \<subseteq> set (obj_keys (assetTypes cfg))"
    using filter_error_None_assetType [OF assms(3)] by auto
  have "filter (\<lambda>a. has_property (getTickersForAssetType dir a) tp) ?filtered = []"
    unfolding has_property_own [OF assms(5)] filter_empty_conv using sub assms(6) by auto
  moreover have "truthy (Some tp)" using assms(4) by (simp add: truthy_def)
  ultimately show ?thesis
    unfolding pricingRouter_ticker_def
    by (simp only: assms(1,2,3) sum.case prod.case option.case Let_def option.sel if_True if_False
        list.size simp_thms)
qed

lemma pricingRouter_tickers_unknown:
  assumes "querySchema_safeParse q = Inr (tickerParam, atype, channel)"
    and "within_model cfg atype channel"
    and "filter_error cfg atype channel = None"
    and "\<not> list_ex inherited (parse_tickers tickerParam)"
    and "filter (\<lambda>t. \<forall>a \<in> set (obj_keys (assetTypes cfg)). getTickerInfo dir a t = None)
           (parse_tickers tickerParam) \<noteq> []"
  shows "pricingRouter_tickers js cfg dir q =
     Answer
       (error_response 400 ''INVALID_TICKER''
          (''Ticker(s) not found: '' @
           join '', '' (filter (\<lambda>t. \<forall>a \<in> set (obj_keys (assetTypes cfg)). getTickerInfo dir a t = None)
                         (parse_tickers tickerParam)))
          (Some (''Look up valid symbols and feed IDs at '' @ symbols_url)))"
proof -
  let ?inv = "filter (\<lambda>t. \<forall>a \<in> set (obj_keys (assetTypes cfg)). getTickerInfo dir a t = None)
                (parse_tickers tickerParam)"
  have ne: "0 < length (parse_tickers tickerParam)"
    using assms(5) by (cases "parse_tickers tickerParam") auto
  have inv: "0 < length ?inv" using assms(5) by simp
  show ?thesis
    unfolding pricingRouter_tickers_def
    by (simp only: assms(1,2,3) sum.case prod.case option.case Let_def ne
        not_found_filter [OF assms(4)] inv if_True if_False simp_thms)
qed

text \<open>
  Inherited names and the wider set of white space, on the sample deployment: the ticker
  \<open>toString\<close>, which the directory does not hold, is answered 200 by both routers, with a
  \<^verbatim>\<open>feedId\<close> that is \<^verbatim>\<open>undefined\<close>; a filter with such a name is outside the model; and a
  no-break space before a ticker is trimmed.
\<close>

lemma inherited_ticker_answered:
  "pricingRouter_ticker js example_cfg example_directory (query_for ''toString'' None) =
     Answer
       (ok_response
          \<lparr>pb_assetTypes = assetTypes example_cfg,
           pb_channels = channels example_cfg,
           pb_durations = durations example_cfg,
           pricing = pricing_matrix js example_cfg [''crypto'', ''commodity''] [''fixed'', ''realtime''],
           supportedTickers = [(''crypto'', [(''toString'', None)]), (''commodity'', [(''toString'', None)])],
           instructions = instructions_text\<rparr>)"
  "pricingRouter_tickers js example_cfg example_directory (query_for ''toString'' None) =
     Answer
       (ok_response
          \<lparr>pb_assetTypes = assetTypes example_cfg,
           pb_channels = channels example_cfg,
           pb_durations = durations example_cfg,
           pricing = pricing_matrix js example_cfg [''crypto'', ''commodity''] [''fixed'', ''realtime''],
           supportedTickers = [(''crypto'', [(''toString'', None)]), (''commodity'', [(''toString'', None)])],
           instructions = instructions_text\<rparr>)"
  "pricingRouter_ticker js example_cfg example_directory (query_for ''BTC-USD'' (Some ''toString'')) =
     Unmodelled"
proof -
  have t: "trim ''toString'' = ''toString''" by code_simp
  have i: "inherited ''toString''" by code_simp
  have "within_model example_cfg None None" by code_simp
  note w = this [unfolded example_cfg_def]
  have p: "parse_tickers (Some ''toString'') = [''toString'']"
    by (simp add: parse_tickers_single t)
  show "pricingRouter_ticker js example_cfg example_directory (query_for ''toString'' None) =
     Answer
       (ok_response
          \<lparr>pb_assetTypes = assetTypes example_cfg,
           pb_channels = channels example_cfg,
           pb_durations = durations example_cfg,
           pricing = pricing_matrix js example_cfg [''crypto'', ''commodity''] [''fixed'', ''realtime''],
           supportedTickers = [(''crypto'', [(''toString'', None)]), (''commodity'', [(''toString'', None)])],
           instructions = instructions_text\<rparr>)"
    by (simp add: pricingRouter_ticker_def query_for_def querySchema_safeParse_def query_field_def
        w filter_error_def truthy_def has_property_def i supported_ticker_def lookup_feedId_def
        getAllTickers_def getTickersForAssetType_def obj_get_def obj_set_def obj_keys_def
        example_cfg_def example_directory_def Let_def)
  show "pricingRouter_tickers js example_cfg example_directory (query_for ''toString'' None) =
     Answer
       (ok_response
          \<lparr>pb_assetTypes = assetTypes example_cfg,
           pb_channels = channels example_cfg,
           pb_durations = durations example_cfg,
           pricing = pricing_matrix js example_cfg [''crypto'', ''commodity''] [''fixed'', ''realtime''],
           supportedTickers = [(''crypto'', [(''toString'', None)]), (''commodity'', [(''toString'', None)])],
           instructions = instructions_text\<rparr>)"
    by (simp add: pricingRouter_tickers_def query_for_def querySchema_safeParse_def query_field_def
        w filter_error_def truthy_def has_property_def i supported_tickers_def lookup_feedId_def p
        found_in_def getAllTickers_def getTickersForAssetType_def obj_get_def obj_set_def obj_keys_def
        example_cfg_def example_directory_def Let_def)
  have "\<not> within_model example_cfg (Some ''toString'') None" by code_simp
  then show "pricingRouter_ticker js example_cfg example_directory (query_for ''BTC-USD'' (Some ''toString'')) =
     Unmodelled"
    by (simp add: pricingRouter_ticker_def query_for_def querySchema_safeParse_def query_field_def)
qed

lemma trim_no_break_space:
  "trim ([CHR 0xC2, CHR 0xA0] @ ''BTC-USD'' @ [CHR 0xE2, CHR 0x80, CHR 0xA8, CHR 0x20]) = ''BTC-USD''"
  "parse_tickers (Some ('' BTC-USD,'' @ [CHR 0xC2, CHR 0xA0] @ '',XAU-USD'' @ [CHR 0x09])) =
     [''BTC-USD'', ''XAU-USD'']"
  by code_simp+

text \<open>
  Claim C3, as the code has it. Take a request to the pricing endpoint whose query
  parameters are strings, whose \<open>assetType\<close> and \<open>channel\<close> filters, when given, are
  configured, and where neither a filter nor a configured key is the name of a property
  inherited from \<^verbatim>\<open>Object.prototype\<close>. If its ticker is not empty, is not such a name and
  is found under no configured asset type, the single-ticker router answers 400 with the
  code \<open>INVALID_TICKER\<close> and a message that names the ticker. If no ticker of its list is
  such a name, the router for ticker lists answers 400 with the code \<open>INVALID_TICKER\<close>, a
  message that names the tickers of the list found under no configured asset type, and a
  hint to the upstream catalog, whenever there is such a ticker; for a ticker without
  comma that \<^verbatim>\<open>trim\<close> leaves as it is, that is the ticker itself. Nothing is said of a
  ticker that is an inherited name.
\<close>

theorem pricing_unknown_ticker:
  assumes "querySchema_safeParse q = Inr (Some tp, atype, channel)"
    and "within_model cfg atype channel"
    and "filter_error cfg atype channel = None"
  shows
    "(tp \<noteq> [] \<and> \<not> inherited tp \<and>
      (\<forall>a \<in> set (obj_keys (assetTypes cfg)). getTickerInfo dir a tp = None) \<longrightarrow>
        pricingRouter_ticker js cfg dir q =
          Answer
            (error_response 400 ''INVALID_TICKER''
               (''Ticker '' @ [CHR 0x27] @ tp @ [CHR 0x27] @ '' not found'' @
                (if truthy atype then '' in asset type '' @ [CHR 0x27] @ the atype @ [CHR 0x27] else []))
               None)) \<and>
     (\<not> list_ex inherited (parse_tickers (Some tp)) \<and>
      filter (\<lambda>t. \<forall>a \<in> set (obj_keys (assetTypes cfg)). getTickerInfo dir a t = None)
        (parse_tickers (Some tp)) \<noteq> [] \<longrightarrow>
        pricingRouter_tickers js cfg dir q =
          Answer
            (error_response 400 ''INVALID_TICKER''
               (''Ticker(s) not found: '' @
                join '', '' (filter (\<lambda>t. \<forall>a \<in> set (obj_keys (assetTypes cfg)). getTickerInfo dir a t = None)
                              (parse_tickers (Some tp))))
               (Some (''Look up valid symbols and feed IDs at '' @ symbols_url)))) \<and>
     (tp \<noteq> [] \<and> CHR '','' \<notin> set tp \<and> trim tp = tp \<and> \<not> inherited tp \<and>
      (\<forall>a \<in> set (obj_keys (assetTypes cfg)). getTickerInfo dir a tp = None) \<longrightarrow>
        pricingRouter_tickers js cfg dir q =
          Answer
            (error_response 400 ''INVALID_TICKER'' (''Ticker(s) not found: '' @ tp)
               (Some (''Look up valid symbols and feed IDs at '' @ symbols_url))))"
proof (intro conjI impI)
  assume "tp \<noteq> [] \<and> \<not> inherited tp \<and>
      (\<forall>a \<in> set (obj_keys (assetTypes cfg)). getTickerInfo dir a tp = None)"
  then show "pricingRouter_ticker js cfg dir q =
          Answer
            (error_response 400 ''INVALID_TICKER''
               (''Ticker '' @ [CHR 0x27] @ tp @ [CHR 0x27] @ '' not found'' @
                (if truthy atype then '' in asset type '' @ [CHR 0x27] @ the atype @ [CHR 0x27] else []))
               None)"
    using pricingRouter_ticker_unknown [OF assms] by blast
next
  assume "\<not> list_ex inherited (parse_tickers (Some tp)) \<and>
      filter (\<lambda>t. \<forall>a \<in> set (obj_keys (assetTypes cfg)). getTickerInfo dir a t = None)
        (parse_tickers (Some tp)) \<noteq> []"
  then show "pricingRouter_tickers js cfg dir q =
          Answer
            (error_response 400 ''INVALID_TICKER''
               (''Ticker(s) not found: '' @
                join '', '' (filter (\<lambda>t. \<forall>a \<in> set (obj_keys (assetTypes cfg)). getTickerInfo dir a t = None)
                              (parse_tickers (Some tp))))
               (Some (''Look up valid symbols and feed IDs at '' @ symbols_url)))"
    using pricingRouter_tickers_unknown [OF assms] by blast
next
  assume a: "tp \<noteq> [] \<and> CHR '','' \<notin> set tp \<and> trim tp = tp \<and> \<not> inherited tp \<and>
      (\<forall>a \<in> set (obj_keys (assetTypes cfg)). getTickerInfo dir a tp = None)"
  then have p: "parse_tickers (Some tp) = [tp]"
    using parse_tickers_single by blast
  have f: "filter (\<lambda>t. \<forall>a \<in> set (obj_keys (assetTypes cfg)). getTickerInfo dir a t = None)
        (parse_tickers (Some tp)) = [tp]"
    using a by (simp add: p)
  have i: "\<not> list_ex inherited (parse_tickers (Some tp))"
    using a by (simp add: p)
  have "filter (\<lambda>t. \<forall>a \<in> set (obj_keys (assetTypes cfg)). getTickerInfo dir a t = None)
        (parse_tickers (Some tp)) \<noteq> []"
    unfolding f by simp
  from pricingRouter_tickers_unknown [OF assms i this]
  show "pricingRouter_tickers js cfg dir q =
          Answer
            (error_response 400 ''INVALID_TICKER'' (''Ticker(s) not found: '' @ tp)
               (Some (''Look up valid symbols and feed IDs at '' @ symbols_url)))"
    unfolding f by simp
qed

theorem pricing_unknown_ticker_witness:
  "querySchema_safeParse (query_for ''FAKE-USD'' None) = Inr (Some ''FAKE-USD'', None, None) \<and>
   within_model example_cfg None None \<and>
   filter_error example_cfg None None = None \<and>
   \<not> inherited ''FAKE-USD'' \<and> trim ''FAKE-USD'' = ''FAKE-USD'' \<and>
   list_all (\<lambda>a. getTickerInfo example_directory a ''FAKE-USD'' = None) (obj_keys (assetTypes example_cfg)) \<and>
   pricingRouter_ticker double_number example_cfg example_directory (query_for ''FAKE-USD'' None) =
     Answer
       (error_response 400 ''INVALID_TICKER''
          (''Ticker '' @ [CHR 0x27] @ ''FAKE-USD'' @ [CHR 0x27] @ '' not found'') None) \<and>
   pricingRouter_tickers double_number example_cfg example_directory (query_for ''FAKE-USD'' None) =
     Answer
       (error_response 400 ''INVALID_TICKER'' ''Ticker(s) not found: FAKE-USD''
          (Some (''Look up valid symbols and feed IDs at '' @ symbols_url)))"
proof -
  have q: "querySchema_safeParse (query_for ''FAKE-USD'' None) = Inr (Some ''FAKE-USD'', None, None)"
    by code_simp
  have w: "within_model example_cfg None None"
    by code_simp
  have f: "filter_error example_cfg None None = None"
    by (simp add: filter_error_def truthy_def)
  have i: "\<not> inherited ''FAKE-USD''"
    by code_simp
  have t: "trim ''FAKE-USD'' = ''FAKE-USD''"
    by code_simp
  have n: "list_all (\<lambda>a. getTickerInfo example_directory a ''FAKE-USD'' = None) (obj_keys (assetTypes example_cfg))"
    by code_simp
  then have n': "\<forall>a \<in> set (obj_keys (assetTypes example_cfg)). getTickerInfo example_directory a ''FAKE-USD'' = None"
    by (simp add: list_all_iff)
  have s: "CHR '','' \<notin> set ''FAKE-USD''" "''FAKE-USD'' \<noteq> []"
    by simp_all
  note r = pricing_unknown_ticker [OF q w f, of example_directory double_number]
  have "pricingRouter_ticker double_number example_cfg example_directory (query_for ''FAKE-USD'' None) =
     Answer
       (error_response 400 ''INVALID_TICKER''
          (''Ticker '' @ [CHR 0x27] @ ''FAKE-USD'' @ [CHR 0x27] @ '' not found'') None)"
    using r n' s i by (simp add: truthy_def)
  moreover have "pricingRouter_tickers double_number example_cfg example_directory (query_for ''FAKE-USD'' None) =
     Answer
       (error_response 400 ''INVALID_TICKER'' ''Ticker(s) not found: FAKE-USD''
          (Some (''Look up valid symbols and feed IDs at '' @ symbols_url)))"
    using r n' s i t by simp
  ultimately show ?thesis using q w f i t n by blast
qed

text \<open>
  The claim C3 as the specification states it fails in two ways. For the query
  \<open>ticker=FAKE-USD\<close> both routers answer 400 with the code \<open>INVALID_TICKER\<close>, but neither
  response lists the available tickers \<open>BTC-USD\<close> and \<open>XAU-USD\<close>. And with an asset type
  filter that is not configured, the same ticker is answered with the code
  \<open>INVALID_ASSET_TYPE\<close>, since the filters are checked first.
\<close>

theorem pricing_unknown_ticker_counterexample:
  "all_tickers example_directory = [''BTC-USD'', ''XAU-USD''] \<and>
   pricingRouter_ticker double_number example_cfg example_directory (query_for ''FAKE-USD'' None) =
     Answer
       (error_response 400 ''INVALID_TICKER''
          (''Ticker '' @ [CHR 0x27] @ ''FAKE-USD'' @ [CHR 0x27] @ '' not found'') None) \<and>
   \<not> lists_available_tickers example_directory
       (error_response 400 ''INVALID_TICKER''
          (''Ticker '' @ [CHR 0x27] @ ''FAKE-USD'' @ [CHR 0x27] @ '' not found'') None) \<and>
   pricingRouter_tickers double_number example_cfg example_directory (query_for ''FAKE-USD'' None) =
     Answer
       (error_response 400 ''INVALID_TICKER'' ''Ticker(s) not found: FAKE-USD''
          (Some ''Look up valid symbols and feed IDs at https://history.pyth-lazer.dourolabs.app/history/v1/symbols'')) \<and>
   \<not> lists_available_tickers example_directory
       (error_response 400 ''INVALID_TICKER'' ''Ticker(s) not found: FAKE-USD''
          (Some ''Look up valid symbols and feed IDs at https://history.pyth-lazer.dourolabs.app/history/v1/symbols'')) \<and>
   pricingRouter_ticker double_number example_cfg example_directory (query_for ''FAKE-USD'' (Some ''stocks'')) =
     Answer
       (error_response 400 ''INVALID_ASSET_TYPE''
          (''Asset type '' @ [CHR 0x27] @ ''stocks'' @ [CHR 0x27] @
           '' is not supported. Available: crypto, commodity'') None) \<and>
   pricingRouter_tickers double_number example_cfg example_directory (query_for ''FAKE-USD'' (Some ''stocks'')) =
     Answer
       (error_response 400 ''INVALID_ASSET_TYPE''
          (''Asset type '' @ [CHR 0x27] @ ''stocks'' @ [CHR 0x27] @
           '' is not supported. Available: crypto, commodity'') None)"
  by code_simp

end
